theory Spec2Isabelle
  imports Main "HOL-Library.Sublist" "HOL-Library.Multiset"
begin

text \<open>
  The version matcher, the version extractor, the vulnerability index, the four
  manifest and lockfile scanners and \<open>ScanAction\<close> of the scanner for vulnerable npm
  packages in GitHub Actions, as written in \<open>github.go\<close>, and the properties that its
  specification states of them.
\<close>

section \<open>Go strings\<close>

text \<open>
  A Go string is a sequence of bytes, here a \<^typ>\<open>string\<close> (a list of 8-bit
  characters). The functions of Go's package \<open>strings\<close> that the scanner calls are
  written out below under their Go names.
\<close>

definition HasPrefix :: "string \<Rightarrow> string \<Rightarrow> bool" where
  "HasPrefix s p = prefix p s"

definition HasSuffix :: "string \<Rightarrow> string \<Rightarrow> bool" where
  "HasSuffix s p = suffix p s"

definition TrimPrefix :: "string \<Rightarrow> string \<Rightarrow> string" where
  "TrimPrefix s p = (if HasPrefix s p then drop (length p) s else s)"

definition TrimSuffix :: "string \<Rightarrow> string \<Rightarrow> string" where
  "TrimSuffix s p = (if HasSuffix s p then take (length s - length p) s else s)"

text \<open>\<open>strings.Index\<close>: the position of the first occurrence, \<open>None\<close> for Go's \<open>-1\<close>.\<close>

fun Index :: "string \<Rightarrow> string \<Rightarrow> nat option" where
  "Index [] sub = (if sub = [] then Some 0 else None)"
| "Index (c # cs) sub =
     (if prefix sub (c # cs) then Some 0 else map_option Suc (Index cs sub))"

definition Contains :: "string \<Rightarrow> string \<Rightarrow> bool" where
  "Contains s sub = (Index s sub \<noteq> None)"

text \<open>
  \<open>strings.Split\<close> cuts at the leftmost occurrence of the separator and goes on with
  what follows it; with an empty separator it returns the bytes one by one (the scanner
  only splits on non-empty separators).
\<close>

function Split :: "string \<Rightarrow> string \<Rightarrow> string list" where
  "Split s sep =
     (if sep = [] then map (\<lambda>c. [c]) s
      else (case Index s sep of
              None \<Rightarrow> [s]
            | Some m \<Rightarrow> take m s # Split (drop (m + length sep) s) sep))"
  by pat_completeness auto

lemma Index_le: "Index s sub = Some m \<Longrightarrow> m + length sub \<le> length s"
proof (induction s arbitrary: m)
  case Nil
  then show ?case by (simp split: if_splits)
next
  case (Cons c cs)
  show ?case
  proof (cases "prefix sub (c # cs)")
    case True
    with Cons.prems prefix_length_le [of sub "c # cs"] show ?thesis by simp
  next
    case False
    with Cons.prems obtain k where "Index cs sub = Some k" and "m = Suc k"
      by auto
    with Cons.IH show ?thesis by fastforce
  qed
qed

termination Split
proof (relation "measure (\<lambda>(s, sep). length s)")
  show "wf (measure (\<lambda>(s, sep). length s))" by simp
next
  fix s sep :: string and m
  assume "sep \<noteq> []" and "Index s sep = Some m"
  then have "m + length sep \<le> length s" and "0 < length sep"
    by (simp_all add: Index_le)
  then have "length s - (m + length sep) < length s"
    by arith
  then show "((drop (m + length sep) s, sep), (s, sep)) \<in> measure (\<lambda>(s, sep). length s)"
    by simp
qed

declare Split.simps [simp del]

text \<open>\<open>strings.SplitN(s, sep, 2)\<close>: at most one cut.\<close>

definition SplitN2 :: "string \<Rightarrow> string \<Rightarrow> string list" where
  "SplitN2 s sep =
     (case Index s sep of
        None \<Rightarrow> [s]
      | Some m \<Rightarrow> [take m s, drop (m + length sep) s])"

fun Join :: "string list \<Rightarrow> string \<Rightarrow> string" where
  "Join [] sep = []"
| "Join [x] sep = x"
| "Join (x # y # ys) sep = x @ sep @ Join (y # ys) sep"

text \<open>
  \<open>strings.TrimSpace\<close> removes the leading and trailing white space that
  \<open>unicode.IsSpace\<close> accepts: the six ASCII characters and, in UTF-8, U+0085, U+00A0,
  U+1680, U+2000 to U+200A, U+2028, U+2029, U+202F, U+205F and U+3000.
\<close>

definition spaces :: "string list" where
  "spaces =
     [[CHR 0x09], [CHR 0x0A], [CHR 0x0B], [CHR 0x0C], [CHR 0x0D], [CHR 0x20],
      [CHR 0xC2, CHR 0x85], [CHR 0xC2, CHR 0xA0], [CHR 0xE1, CHR 0x9A, CHR 0x80],
      [CHR 0xE2, CHR 0x80, CHR 0x80], [CHR 0xE2, CHR 0x80, CHR 0x81],
      [CHR 0xE2, CHR 0x80, CHR 0x82], [CHR 0xE2, CHR 0x80, CHR 0x83],
      [CHR 0xE2, CHR 0x80, CHR 0x84], [CHR 0xE2, CHR 0x80, CHR 0x85],
      [CHR 0xE2, CHR 0x80, CHR 0x86], [CHR 0xE2, CHR 0x80, CHR 0x87],
      [CHR 0xE2, CHR 0x80, CHR 0x88], [CHR 0xE2, CHR 0x80, CHR 0x89],
      [CHR 0xE2, CHR 0x80, CHR 0x8A], [CHR 0xE2, CHR 0x80, CHR 0xA8],
      [CHR 0xE2, CHR 0x80, CHR 0xA9], [CHR 0xE2, CHR 0x80, CHR 0xAF],
      [CHR 0xE2, CHR 0x81, CHR 0x9F], [CHR 0xE3, CHR 0x80, CHR 0x80]]"

fun TrimLeftSpace :: "string \<Rightarrow> string" where
  "TrimLeftSpace [] = []"
| "TrimLeftSpace (c # cs) =
     (case find (\<lambda>w. prefix w (c # cs)) spaces of
        None \<Rightarrow> c # cs
      | Some w \<Rightarrow> TrimLeftSpace (drop (length w - 1) cs))"

function TrimRightSpace :: "string \<Rightarrow> string" where
  "TrimRightSpace s =
     (case find (\<lambda>w. suffix w s) spaces of
        None \<Rightarrow> s
      | Some w \<Rightarrow> if s = [] then s else TrimRightSpace (take (length s - length w) s))"
  by pat_completeness auto

lemma spaces_nonempty: "w \<in> set spaces \<Longrightarrow> w \<noteq> []"
  by (auto simp: spaces_def)

lemma find_spaces_nonempty: "find P spaces = Some w \<Longrightarrow> w \<noteq> []"
  by (metis find_Some_iff nth_mem spaces_nonempty)

termination TrimRightSpace
proof (relation "measure length")
  show "wf (measure length)" by simp
next
  fix s w :: string
  assume "find (\<lambda>w. suffix w s) spaces = Some w" and "s \<noteq> []"
  then have "w \<noteq> []" and "s \<noteq> []"
    by (simp_all add: find_spaces_nonempty)
  then have "length s - length w < length s"
    by (cases w; cases s) simp_all
  then show "(take (length s - length w) s, s) \<in> measure length"
    by simp
qed

declare TrimRightSpace.simps [simp del]

definition TrimSpace :: "string \<Rightarrow> string" where
  "TrimSpace s = TrimRightSpace (TrimLeftSpace s)"

text \<open>\<open>strings.Trim(s, cutset)\<close> for a cutset of ASCII characters.\<close>

definition Trim :: "string \<Rightarrow> string \<Rightarrow> string" where
  "Trim s cutset =
     rev (dropWhile (\<lambda>c. c \<in> set cutset) (rev (dropWhile (\<lambda>c. c \<in> set cutset) s)))"

definition isDigit :: "char \<Rightarrow> bool" where
  "isDigit c = (48 \<le> (of_char c :: nat) \<and> (of_char c :: nat) \<le> 57)"

section \<open>Version extractor\<close>

text \<open>
  The loop of \<open>extractVersionFromResolved\<close> that looks for the first part, from index
  1 on, starting with a digit; \<open>None\<close> is the source's \<open>versionStartIdx == -1\<close>.
\<close>

fun versionStartIdx :: "nat \<Rightarrow> string list \<Rightarrow> nat option" where
  "versionStartIdx i [] = None"
| "versionStartIdx i (p # ps) =
     (if 0 < length p \<and> isDigit (hd p) then Some i else versionStartIdx (Suc i) ps)"

definition extractVersionFromResolved :: "string \<Rightarrow> string" where
  "extractVersionFromResolved resolved =
     (if resolved = [] then []
      else let parts = Split resolved ''/-/'' in
        if length parts < 2 then []
        else let filename = TrimSuffix (last parts) ''.tgz'';
                 dashParts = Split filename ''-'' in
          if length dashParts < 2 then []
          else (case versionStartIdx 1 (drop 1 dashParts) of
                  None \<Rightarrow> []
                | Some idx \<Rightarrow> Join (drop idx dashParts) ''-''))"

definition getActualVersion :: "string \<Rightarrow> string \<Rightarrow> string" where
  "getActualVersion declared resolved =
     (let resolvedVersion = extractVersionFromResolved resolved in
      if resolvedVersion \<noteq> [] then resolvedVersion else declared)"

section \<open>Version matcher\<close>

text \<open>
  The matcher calls the semantic-version module \<open>github.com/Masterminds/semver/v3\<close>,
  which is imported by the source and is not part of it. Its operations are a parameter
  of the model: a record of what the source calls on the module. \<open>None\<close> stands for a
  returned error; the segments of a version are Go's \<open>uint64\<close>, read as integers.
\<close>

record ('v, 'c) semver =
  NewVersion :: "string \<Rightarrow> 'v option"
  NewConstraint :: "string \<Rightarrow> 'c option"
  Check :: "'c \<Rightarrow> 'v \<Rightarrow> bool"
  Equal :: "'v \<Rightarrow> 'v \<Rightarrow> bool"
  Prerelease :: "'v \<Rightarrow> string"
  Major :: "'v \<Rightarrow> int"
  Minor :: "'v \<Rightarrow> int"
  Patch :: "'v \<Rightarrow> int"

text \<open>The verb \<open>%d\<close> of \<open>fmt.Sprintf\<close> on an unsigned integer.\<close>

function decimal :: "int \<Rightarrow> string" where
  "decimal n =
     (if n < 10 then [''0123456789'' ! nat n]
      else decimal (n div 10) @ [''0123456789'' ! nat (n mod 10)])"
  by pat_completeness auto
termination
  by (relation "measure nat") auto

declare decimal.simps [simp del]

definition constraintPrefixes :: "string list" where
  "constraintPrefixes = [''^'', ''~'', ''>='', ''<='', ''>'', ''<'', ''='']"

text \<open>The loop of \<open>cleanVersionString\<close>: the first prefix that applies is removed, once.\<close>

fun removeOnePrefix :: "string \<Rightarrow> string list \<Rightarrow> string" where
  "removeOnePrefix version [] = version"
| "removeOnePrefix version (p # ps) =
     (if HasPrefix version p then TrimSpace (drop (length p) version)
      else removeOnePrefix version ps)"

definition cleanVersionString :: "string \<Rightarrow> string" where
  "cleanVersionString version = removeOnePrefix (TrimSpace version) constraintPrefixes"

definition isConstraintNotVersion :: "string \<Rightarrow> bool" where
  "isConstraintNotVersion version =
     (let v = TrimSpace version in
      if list_ex (HasPrefix v) constraintPrefixes then True
      else if Contains v '' '' then True
      else if Contains v '','' then True
      else False)"

text \<open>
  The three inner loops of \<open>isVersionVulnerable\<close> return true at the first entry that
  matches; each is an existential over the list, with the body of the loop as the test.
\<close>

definition constraintMatch :: "('v, 'c) semver \<Rightarrow> 'c \<Rightarrow> string \<Rightarrow> bool" where
  "constraintMatch L installedConstraint vulnVersion =
     (case NewVersion L vulnVersion of
        Some vulnVer \<Rightarrow> Check L installedConstraint vulnVer
      | None \<Rightarrow> False)"

definition prereleaseMatch :: "('v, 'c) semver \<Rightarrow> 'v \<Rightarrow> 'v \<Rightarrow> bool" where
  "prereleaseMatch L installedVer vulnVer =
     (if Prerelease L installedVer \<noteq> [] \<and> Prerelease L vulnVer = [] then
        (case NewVersion L (decimal (Major L installedVer) @ ''.''
                @ decimal (Minor L installedVer) @ ''.'' @ decimal (Patch L installedVer)) of
           Some coreInstalled \<Rightarrow> Equal L coreInstalled vulnVer
         | None \<Rightarrow> False)
      else False)"

definition exactMatch :: "('v, 'c) semver \<Rightarrow> 'v \<Rightarrow> string \<Rightarrow> bool" where
  "exactMatch L installedVer vulnVersion =
     (case NewVersion L vulnVersion of
        Some vulnVer \<Rightarrow>
          if Equal L installedVer vulnVer then True
          else prereleaseMatch L installedVer vulnVer
      | None \<Rightarrow> False)"

definition versionMatch :: "('v, 'c) semver \<Rightarrow> 'v \<Rightarrow> string \<Rightarrow> bool" where
  "versionMatch L installedVer vulnVersion =
     (case NewConstraint L vulnVersion of
        Some constraint \<Rightarrow> Check L constraint installedVer
      | None \<Rightarrow> exactMatch L installedVer vulnVersion)"

definition isVersionVulnerable :: "('v, 'c) semver \<Rightarrow> string \<Rightarrow> string list \<Rightarrow> bool" where
  "isVersionVulnerable L installedVersion vulnerableVersions =
     (if list_ex (\<lambda>vulnVersion. installedVersion = vulnVersion) vulnerableVersions then True
      else
        (case (if isConstraintNotVersion installedVersion
               then NewConstraint L installedVersion else None) of
           Some installedConstraint \<Rightarrow>
             list_ex (constraintMatch L installedConstraint) vulnerableVersions
         | None \<Rightarrow>
            (case NewVersion L (cleanVersionString installedVersion) of
               Some installedVer \<Rightarrow> list_ex (versionMatch L installedVer) vulnerableVersions
             | None \<Rightarrow>
                (case NewVersion L installedVersion of
                   Some directVer \<Rightarrow> list_ex (exactMatch L directVer) vulnerableVersions
                 | None \<Rightarrow> False))))"

section \<open>Vulnerability index\<close>

text \<open>
  The struct \<open>VulnerablePackage\<close> is declared outside the given sources; the scanner
  reads its fields \<open>Name\<close> and \<open>Versions\<close>.
\<close>

record VulnerablePackage =
  Name :: string
  Versions :: "string list"

type_synonym VulnerablePackageMap = "string \<rightharpoonup> VulnerablePackage"

definition buildVulnerablePackageMap :: "VulnerablePackage list \<Rightarrow> VulnerablePackageMap" where
  "buildVulnerablePackageMap vulnerablePackages =
     fold (\<lambda>pkg packageMap. packageMap(Name pkg \<mapsto> pkg)) vulnerablePackages Map.empty"

definition isVulnerable ::
  "('v, 'c) semver \<Rightarrow> VulnerablePackageMap \<Rightarrow> string \<Rightarrow> string \<Rightarrow> bool \<times> VulnerablePackage"
where
  "isVulnerable L vpm packageName version =
     (case vpm packageName of
        Some vulnerablePackage \<Rightarrow>
          if isVersionVulnerable L version (Versions vulnerablePackage)
          then (True, vulnerablePackage)
          else (False, \<lparr>Name = [], Versions = []\<rparr>)
      | None \<Rightarrow> (False, \<lparr>Name = [], Versions = []\<rparr>))"

definition formatVulnerabilityMessage ::
  "string \<Rightarrow> string \<Rightarrow> string \<Rightarrow> VulnerablePackage \<Rightarrow> string"
where
  "formatVulnerabilityMessage pkgName version filename vulnerablePackage =
     ''Found vulnerable package '' @ pkgName @ '' with version '' @ version
       @ '' in '' @ filename"

section \<open>Files and decoded documents\<close>

text \<open>
  A Go map has no order of its own: a \<open>range\<close> loop visits its entries in an order
  that the runtime chooses anew for each loop. A map is modelled by the list of its
  entries in the order in which the loop of the run at hand visits them, so that two
  runs on the same map are two lists with the same entries. The keys of a map are
  distinct. A field that the source compares with \<open>nil\<close> is an option.
\<close>

type_synonym 'a gomap = "(string \<times> 'a) list"

record PackageJSON =
  PackageJSON_Dependencies :: "string gomap option"
  PackageJSON_DevDependencies :: "string gomap option"
  PackageJSON_PeerDependencies :: "string gomap option"
  PackageJSON_OptionalDependencies :: "string gomap option"
  PackageJSON_BundledDependencies :: "string list"

record PackageLockPackageInfo =
  PackageLockPackageInfo_Version :: string
  PackageLockPackageInfo_Resolved :: string
  PackageLockPackageInfo_Dependencies :: "string gomap"

datatype PackageLockInfo =
  PackageLockInfo (PackageLockInfo_Version: string)
    (PackageLockInfo_Dependencies: "(string \<times> PackageLockInfo) list")

record PackageLockJSON =
  PackageLockJSON_LockfileVersion :: int
  PackageLockJSON_Packages :: "PackageLockPackageInfo gomap"
  PackageLockJSON_Dependencies :: "PackageLockInfo gomap"

text \<open>The field \<open>Resolution\<close> is an \<open>interface{}\<close>; its values are a type parameter.\<close>

record 'r PnpmPackageInfo =
  PnpmPackageInfo_Resolution :: 'r
  PnpmPackageInfo_Version :: string
  PnpmPackageInfo_Dev :: bool
  PnpmPackageInfo_Dependencies :: "string gomap"

record 'r PnpmLock =
  PnpmLock_LockfileVersion :: int
  PnpmLock_Dependencies :: "string gomap option"
  PnpmLock_DevDependencies :: "string gomap option"
  PnpmLock_Packages :: "'r PnpmPackageInfo gomap"
  PnpmLock_Specifiers :: "string gomap"

text \<open>
  What a scanner gets from the file system and the decoder: \<open>ioutil.ReadFile\<close> fails or
  returns the bytes, \<open>json.Unmarshal\<close> and \<open>yaml.Unmarshal\<close> fail or fill the struct.
  The errors carry the path, as the wrapped messages of the source do.
\<close>

datatype 'a fileRead = Unreadable | Bytes 'a

datatype 'a decoded = Invalid | Decoded 'a

datatype error = ReadFailed string | UnmarshalFailed string

text \<open>\<open>filepath.Base\<close> with \<open>/\<close> as the separator.\<close>

definition Base :: "string \<Rightarrow> string" where
  "Base path =
     (if path = [] then ''.''
      else let stripped = rev (dropWhile (\<lambda>c. c = CHR ''/'') (rev path));
               element = rev (takeWhile (\<lambda>c. c \<noteq> CHR ''/'') (rev stripped))
           in if element = [] then ''/'' else element)"

section \<open>Scanners\<close>

text \<open>
  One \<open>range\<close> loop over a map of names to versions, as the scanners of
  \<open>package.json\<close> and \<open>pnpm-lock.yaml\<close> have it, and the loop over the dependency types
  around it.
\<close>

definition scanVersionMap ::
  "('v, 'c) semver \<Rightarrow> VulnerablePackageMap \<Rightarrow> (string \<Rightarrow> string \<Rightarrow> VulnerablePackage \<Rightarrow> string)
     \<Rightarrow> string gomap \<Rightarrow> string list"
where
  "scanVersionMap L vpm message deps =
     concat (map (\<lambda>(pkgName, version).
        (case isVulnerable L vpm pkgName version of
           (True, vulnerablePackage) \<Rightarrow> [message pkgName version vulnerablePackage]
         | (False, _) \<Rightarrow> [])) deps)"

definition scanDependencyTypes ::
  "(string gomap option \<times> string) list \<Rightarrow> (string \<Rightarrow> string gomap \<Rightarrow> string list) \<Rightarrow> string list"
where
  "scanDependencyTypes dependencyTypes scan =
     concat (map (\<lambda>(deps, name).
        (case deps of None \<Rightarrow> [] | Some m \<Rightarrow> scan name m)) dependencyTypes)"

definition scanPackageJSONOptimized ::
  "('v, 'c) semver \<Rightarrow> string \<Rightarrow> PackageJSON decoded fileRead \<Rightarrow> VulnerablePackageMap
     \<Rightarrow> error + string list"
where
  "scanPackageJSONOptimized L path data vulnerablePackageMap =
     (case data of
        Unreadable \<Rightarrow> Inl (ReadFailed path)
      | Bytes Invalid \<Rightarrow> Inl (UnmarshalFailed path)
      | Bytes (Decoded packageJSON) \<Rightarrow>
          Inr (scanDependencyTypes
                 [(PackageJSON_Dependencies packageJSON, ''dependencies''),
                  (PackageJSON_DevDependencies packageJSON, ''devDependencies''),
                  (PackageJSON_PeerDependencies packageJSON, ''peerDependencies''),
                  (PackageJSON_OptionalDependencies packageJSON, ''optionalDependencies'')]
                 (\<lambda>name. scanVersionMap L vulnerablePackageMap
                    (\<lambda>pkgName version vulnerablePackage.
                       formatVulnerabilityMessage pkgName version (Base path) vulnerablePackage
                         @ '' ('' @ name @ '')''))
               @ concat (map (\<lambda>bundledPkg.
                    if vulnerablePackageMap bundledPkg \<noteq> None
                    then [''Found vulnerable package '' @ bundledPkg @ '' in '' @ Base path
                            @ '' (bundledDependencies) - version unknown, check manually'']
                    else [])
                  (PackageJSON_BundledDependencies packageJSON))))"

definition scanPackageLockPackagesOptimized ::
  "('v, 'c) semver \<Rightarrow> PackageLockPackageInfo gomap \<Rightarrow> VulnerablePackageMap \<Rightarrow> string
     \<Rightarrow> string list"
where
  "scanPackageLockPackagesOptimized L packages vulnerablePackageMap filename =
     concat (map (\<lambda>(pkgPath, pkgInfo).
        let pkgName = TrimPrefix pkgPath ''node_modules/'' in
        if pkgName = [] \<or> Contains pkgName ''/node_modules/'' then []
        else
          let actualVersion = getActualVersion (PackageLockPackageInfo_Version pkgInfo)
                                (PackageLockPackageInfo_Resolved pkgInfo) in
          (case isVulnerable L vulnerablePackageMap pkgName actualVersion of
             (True, vulnerablePackage) \<Rightarrow>
               [formatVulnerabilityMessage pkgName actualVersion filename vulnerablePackage]
           | (False, _) \<Rightarrow> [])) packages)"

text \<open>
  The recursive walk of the nested tree: one function for the loop over a map and one
  for the body of the loop at an entry.
\<close>

fun scanPackageLockDependenciesOptimized ::
  "('v, 'c) semver \<Rightarrow> PackageLockInfo gomap \<Rightarrow> VulnerablePackageMap \<Rightarrow> string \<Rightarrow> string list"
and scanPackageLockEntry ::
  "('v, 'c) semver \<Rightarrow> string \<Rightarrow> PackageLockInfo \<Rightarrow> VulnerablePackageMap \<Rightarrow> string \<Rightarrow> string list"
where
  "scanPackageLockDependenciesOptimized L [] vpm filename = []"
| "scanPackageLockDependenciesOptimized L ((pkgName, pkgInfo) # dependencies) vpm filename =
     scanPackageLockEntry L pkgName pkgInfo vpm filename
       @ scanPackageLockDependenciesOptimized L dependencies vpm filename"
| "scanPackageLockEntry L pkgName (PackageLockInfo version nested) vpm filename =
     (case isVulnerable L vpm pkgName version of
        (True, vulnerablePackage) \<Rightarrow>
          [formatVulnerabilityMessage pkgName version filename vulnerablePackage]
      | (False, _) \<Rightarrow> [])
     @ (if 0 < length nested
        then scanPackageLockDependenciesOptimized L nested vpm filename else [])"

definition scanPackageLockJSONOptimized ::
  "('v, 'c) semver \<Rightarrow> string \<Rightarrow> PackageLockJSON decoded fileRead \<Rightarrow> VulnerablePackageMap
     \<Rightarrow> error + string list"
where
  "scanPackageLockJSONOptimized L path data vulnerablePackageMap =
     (case data of
        Unreadable \<Rightarrow> Inl (ReadFailed path)
      | Bytes Invalid \<Rightarrow> Inl (UnmarshalFailed path)
      | Bytes (Decoded packageLockJSON) \<Rightarrow>
          if 2 \<le> PackageLockJSON_LockfileVersion packageLockJSON
             \<and> 0 < length (PackageLockJSON_Packages packageLockJSON)
          then Inr (scanPackageLockPackagesOptimized L (PackageLockJSON_Packages packageLockJSON)
                      vulnerablePackageMap (Base path))
          else if 0 < length (PackageLockJSON_Dependencies packageLockJSON)
          then Inr (scanPackageLockDependenciesOptimized L
                      (PackageLockJSON_Dependencies packageLockJSON) vulnerablePackageMap
                      (Base path))
          else Inr [])"

definition extractPackageNameFromYarnSpec :: "string \<Rightarrow> string" where
  "extractPackageNameFromYarnSpec spec0 =
     (let spec = TrimSpace spec0 in
      if HasPrefix spec ''@'' then
        (case Index spec ''/'' of
           None \<Rightarrow> []
         | Some firstSlash \<Rightarrow>
             (case Index (drop firstSlash spec) ''@'' of
                None \<Rightarrow> spec
              | Some secondAt \<Rightarrow> take (firstSlash + secondAt) spec))
      else
        (case Index spec ''@'' of
           None \<Rightarrow> spec
         | Some atIndex \<Rightarrow> take atIndex spec))"

text \<open>
  The loop over the specifiers of a header line: the first specifier with a non-empty
  name sets the current package name; with none the name stays as it was.
\<close>

fun firstPackageName :: "string list \<Rightarrow> string option" where
  "firstPackageName [] = None"
| "firstPackageName (spec # packageSpecs) =
     (let packageName = extractPackageNameFromYarnSpec (Trim (TrimSpace spec) [CHR 0x22, CHR 0x27])
      in if packageName \<noteq> [] then Some packageName else firstPackageName packageSpecs)"

text \<open>
  One turn of the loop over the lines of \<open>yarn.lock\<close>, on the state made of the current
  package name and the findings so far; \<open>raw\<close> is \<open>lines[i]\<close>.
\<close>

definition yarnLine ::
  "('v, 'c) semver \<Rightarrow> VulnerablePackageMap \<Rightarrow> string \<Rightarrow> string \<Rightarrow> string \<times> string list
     \<Rightarrow> string \<times> string list"
where
  "yarnLine L vpm path raw state =
     (let line = TrimSpace raw; currentPackageName = fst state; found = snd state in
      if line = [] \<or> HasPrefix line ''#'' then state
      else if \<not> HasPrefix raw '' '' \<and> HasSuffix line '':'' then
        (case firstPackageName (Split (TrimSuffix line '':'') '','') of
           Some packageName \<Rightarrow> (packageName, found)
         | None \<Rightarrow> state)
      else if HasPrefix raw ''  '' \<and> Contains line ''version'' then
        (let parts = SplitN2 line ''version'' in
         if length parts = 2 then
           (let version = Trim (TrimSpace (parts ! 1)) [CHR 0x22, CHR 0x27] in
            case isVulnerable L vpm currentPackageName version of
              (True, vulnerablePackage) \<Rightarrow>
                (currentPackageName,
                 found @ [formatVulnerabilityMessage currentPackageName version (Base path)
                            vulnerablePackage])
            | (False, _) \<Rightarrow> state)
         else state)
      else state)"

definition scanYarnLockOptimized ::
  "('v, 'c) semver \<Rightarrow> string \<Rightarrow> string fileRead \<Rightarrow> VulnerablePackageMap \<Rightarrow> error + string list"
where
  "scanYarnLockOptimized L path data vulnerablePackageMap =
     (case data of
        Unreadable \<Rightarrow> Inl (ReadFailed path)
      | Bytes content \<Rightarrow>
          Inr (snd (fold (yarnLine L vulnerablePackageMap path) (Split content [CHR 0x0A])
                      ([], []))))"

definition extractPackageNameAndVersionFromPnpmPath :: "string \<Rightarrow> string \<times> string" where
  "extractPackageNameAndVersionFromPnpmPath pkgPath0 =
     (let pkgPath = TrimPrefix pkgPath0 ''/'';
          components = Split pkgPath ''/'' in
      if length components < 2 then ([], [])
      else if HasPrefix pkgPath ''@'' then
        (if length components < 3 then ([], [])
         else (components ! 0 @ ''/'' @ components ! 1, components ! 2))
      else (components ! 0, components ! 1))"

definition scanPnpmPackages ::
  "('v, 'c) semver \<Rightarrow> VulnerablePackageMap \<Rightarrow> string \<Rightarrow> 'r PnpmPackageInfo gomap \<Rightarrow> string list"
where
  "scanPnpmPackages L vpm path packages =
     concat (map (\<lambda>(pkgPath, pkgInfo).
        if pkgPath = [] \<or> pkgPath = ''/'' then []
        else
          (case extractPackageNameAndVersionFromPnpmPath pkgPath of
             (pkgName, version) \<Rightarrow>
               if pkgName = [] \<or> version = [] then []
               else
                 (case isVulnerable L vpm pkgName version of
                    (True, vulnerablePackage) \<Rightarrow>
                      [formatVulnerabilityMessage pkgName version (Base path) vulnerablePackage]
                  | (False, _) \<Rightarrow> []))) packages)"

definition scanPnpmLockOptimized ::
  "('v, 'c) semver \<Rightarrow> string \<Rightarrow> 'r PnpmLock decoded fileRead \<Rightarrow> VulnerablePackageMap
     \<Rightarrow> error + string list"
where
  "scanPnpmLockOptimized L path data vulnerablePackageMap =
     (case data of
        Unreadable \<Rightarrow> Inl (ReadFailed path)
      | Bytes Invalid \<Rightarrow> Inl (UnmarshalFailed path)
      | Bytes (Decoded pnpmLock) \<Rightarrow>
          Inr ((if 0 < length (PnpmLock_Packages pnpmLock)
                then scanPnpmPackages L vulnerablePackageMap path (PnpmLock_Packages pnpmLock)
                else [])
               @ scanDependencyTypes
                   [(PnpmLock_Dependencies pnpmLock, ''dependencies''),
                    (PnpmLock_DevDependencies pnpmLock, ''devDependencies'')]
                   (\<lambda>name. scanVersionMap L vulnerablePackageMap
                      (\<lambda>pkgName version vulnerablePackage.
                         formatVulnerabilityMessage pkgName version (Base path)
                           vulnerablePackage))))"

section \<open>Scanning an action\<close>

text \<open>
  The directory of a downloaded action, as \<open>ScanAction\<close> sees it: for each of the four
  files, \<open>None\<close> when \<open>os.Stat\<close> fails, and otherwise what reading and decoding give.
  The lines that \<open>ScanAction\<close> prints on the standard output are left out.
\<close>

record 'r ActionDir =
  packageJSON :: "PackageJSON decoded fileRead option"
  packageLockJSON :: "PackageLockJSON decoded fileRead option"
  yarnLock :: "string fileRead option"
  pnpmLock :: "'r PnpmLock decoded fileRead option"

text \<open>
  \<open>filepath.Join\<close> of a directory and a file name, without the cleaning of the
  directory part, which leaves the last element as it is.
\<close>

definition filepathJoin :: "string \<Rightarrow> string \<Rightarrow> string" where
  "filepathJoin dir name = (if dir = [] then name else dir @ ''/'' @ name)"

text \<open>
  One of the four blocks of \<open>ScanAction\<close>: skip the file when it is not there, return
  the scanner's error, or append its findings.
\<close>

definition scanBlock ::
  "'f option \<Rightarrow> ('f \<Rightarrow> error + string list) \<Rightarrow> string list \<Rightarrow> error + string list"
where
  "scanBlock present scan foundVulnerabilities =
     (case present of
        None \<Rightarrow> Inr foundVulnerabilities
      | Some data \<Rightarrow>
          (case scan data of
             Inl err \<Rightarrow> Inl err
           | Inr vulnerabilities \<Rightarrow> Inr (foundVulnerabilities @ vulnerabilities)))"

definition ScanAction ::
  "('v, 'c) semver \<Rightarrow> string \<Rightarrow> 'r ActionDir \<Rightarrow> VulnerablePackage list \<Rightarrow> error + string list"
where
  "ScanAction L actionDir files vulnerablePackages =
     (let vulnerablePackageMap = buildVulnerablePackageMap vulnerablePackages in
      case scanBlock (packageJSON files)
             (\<lambda>data. scanPackageJSONOptimized L (filepathJoin actionDir ''package.json'') data
                vulnerablePackageMap) [] of
        Inl err \<Rightarrow> Inl err
      | Inr found1 \<Rightarrow>
     (case scanBlock (packageLockJSON files)
             (\<lambda>data. scanPackageLockJSONOptimized L
                (filepathJoin actionDir ''package-lock.json'') data vulnerablePackageMap)
             found1 of
        Inl err \<Rightarrow> Inl err
      | Inr found2 \<Rightarrow>
     (case scanBlock (yarnLock files)
             (\<lambda>data. scanYarnLockOptimized L (filepathJoin actionDir ''yarn.lock'') data
                vulnerablePackageMap) found2 of
        Inl err \<Rightarrow> Inl err
      | Inr found3 \<Rightarrow>
          scanBlock (pnpmLock files)
             (\<lambda>data. scanPnpmLockOptimized L (filepathJoin actionDir ''pnpm-lock.yaml'') data
                vulnerablePackageMap) found3)))"

section \<open>The semantic-version module\<close>

text \<open>
  Modelled from the spec: the parsing and comparison of versions and ranges is done by
  the imported module \<open>github.com/Masterminds/semver/v3\<close>, whose code is not among the
  sources. The spec asks for the standard precedence rules (numeric comparison of major,
  minor and patch, then prerelease precedence; equality on numbers and prerelease, not
  on build metadata) and for standard range semantics. The instance below follows the
  documented behaviour of the module on this fragment:
  \<^item> a version is \<open>[v]MAJOR[.MINOR[.PATCH]][-PRERELEASE][+METADATA]\<close>, a missing minor
    or patch being 0;
  \<^item> a constraint is a list of alternatives separated by \<open>||\<close>, each a list of
    comparators separated by white space or a comma, each comparator one of the
    operators \<open>=\<close>, \<open>>\<close>, \<open><\<close>, \<open>>=\<close>, \<open>=>\<close>, \<open><=\<close>, \<open>=<\<close>, \<open>~\<close>, \<open>~>\<close>, \<open>^\<close> or none,
    followed by a version in which \<open>x\<close>, \<open>X\<close> or \<open>*\<close> may stand for a segment;
  \<^item> a version with a prerelease satisfies no comparator whose version has none.
  Hyphen ranges and the operator \<open>!=\<close> are outside the fragment (the instance rejects
  them). The general theorems below hold for every module; this instance is evaluated on
  concrete strings only.
\<close>

record version =
  major :: int
  minor :: int
  patch :: int
  pre :: string
  metadata :: string

definition isIdentChar :: "char \<Rightarrow> bool" where
  "isIdentChar c =
     (let n = (of_char c :: nat) in
      (48 \<le> n \<and> n \<le> 57) \<or> (65 \<le> n \<and> n \<le> 90) \<or> (97 \<le> n \<and> n \<le> 122) \<or> c = CHR ''-'')"

definition parseUint :: "string \<Rightarrow> int option" where
  "parseUint s =
     (if s \<noteq> [] \<and> list_all isDigit s then
        (let n = fold (\<lambda>c n. 10 * n + (of_char c - 48)) s 0 in
         if n < 2 ^ 64 then Some n else None)
      else None)"

definition cutAt :: "string \<Rightarrow> string \<Rightarrow> string \<times> string option" where
  "cutAt s sep =
     (case Index s sep of
        None \<Rightarrow> (s, None)
      | Some m \<Rightarrow> (take m s, Some (drop (m + length sep) s)))"

definition validIdentifiers :: "string \<Rightarrow> bool" where
  "validIdentifiers s = list_all (\<lambda>i. i \<noteq> [] \<and> list_all isIdentChar i) (Split s ''.'')"

definition validPrerelease :: "string \<Rightarrow> bool" where
  "validPrerelease s =
     (validIdentifiers s
      \<and> list_all (\<lambda>i. \<not> (list_all isDigit i \<and> 1 < length i \<and> hd i = CHR ''0''))
           (Split s ''.''))"

text \<open>
  The fields of a version string: the segments of the core, the prerelease and the
  metadata (empty when absent).
\<close>

definition versionFields :: "string \<Rightarrow> (string list \<times> string \<times> string) option" where
  "versionFields s =
     (case cutAt (TrimPrefix s ''v'') ''+'' of (body, meta) \<Rightarrow>
      (case cutAt body ''-'' of (core, prerelease) \<Rightarrow>
        if (case meta of Some m \<Rightarrow> \<not> validIdentifiers m | None \<Rightarrow> False) then None
        else if (case prerelease of Some p \<Rightarrow> \<not> validPrerelease p | None \<Rightarrow> False) then None
        else if 3 < length (Split core ''.'') then None
        else Some (Split core ''.'',
                   (case prerelease of Some p \<Rightarrow> p | None \<Rightarrow> []),
                   (case meta of Some m \<Rightarrow> m | None \<Rightarrow> []))))"

definition semverNewVersion :: "string \<Rightarrow> version option" where
  "semverNewVersion s =
     (case versionFields s of
        None \<Rightarrow> None
      | Some (parts, p, m) \<Rightarrow>
          (case map parseUint parts of
             [Some a] \<Rightarrow> Some \<lparr>major = a, minor = 0, patch = 0, pre = p, metadata = m\<rparr>
           | [Some a, Some b] \<Rightarrow> Some \<lparr>major = a, minor = b, patch = 0, pre = p, metadata = m\<rparr>
           | [Some a, Some b, Some c] \<Rightarrow>
               Some \<lparr>major = a, minor = b, patch = c, pre = p, metadata = m\<rparr>
           | _ \<Rightarrow> None))"

text \<open>Comparison, with the results \<open>-1\<close>, \<open>0\<close> and \<open>1\<close> of the module.\<close>

definition compareSegment :: "int \<Rightarrow> int \<Rightarrow> int" where
  "compareSegment v w = (if v < w then - 1 else if v > w then 1 else 0)"

fun stringGreater :: "string \<Rightarrow> string \<Rightarrow> bool" where
  "stringGreater [] t = False"
| "stringGreater (c # s) [] = True"
| "stringGreater (c # s) (d # t) =
     (if (of_char c :: nat) > of_char d then True
      else if (of_char c :: nat) < of_char d then False
      else stringGreater s t)"

definition comparePrePart :: "string \<Rightarrow> string \<Rightarrow> int" where
  "comparePrePart s t =
     (if s = t then 0
      else if s = [] then - 1
      else if t = [] then 1
      else (case (parseUint s, parseUint t) of
              (None, None) \<Rightarrow> (if stringGreater s t then 1 else - 1)
            | (Some si, None) \<Rightarrow> - 1
            | (None, Some ti) \<Rightarrow> 1
            | (Some si, Some ti) \<Rightarrow> (if si > ti then 1 else - 1)))"

fun comparePrerelease :: "string list \<Rightarrow> string list \<Rightarrow> int" where
  "comparePrerelease [] [] = 0"
| "comparePrerelease (s # sparts) [] =
     (let d = comparePrePart s [] in if d \<noteq> 0 then d else comparePrerelease sparts [])"
| "comparePrerelease [] (t # tparts) =
     (let d = comparePrePart [] t in if d \<noteq> 0 then d else comparePrerelease [] tparts)"
| "comparePrerelease (s # sparts) (t # tparts) =
     (let d = comparePrePart s t in if d \<noteq> 0 then d else comparePrerelease sparts tparts)"

definition Compare :: "version \<Rightarrow> version \<Rightarrow> int" where
  "Compare v w =
     (if compareSegment (major v) (major w) \<noteq> 0 then compareSegment (major v) (major w)
      else if compareSegment (minor v) (minor w) \<noteq> 0 then compareSegment (minor v) (minor w)
      else if compareSegment (patch v) (patch w) \<noteq> 0 then compareSegment (patch v) (patch w)
      else if pre v = [] \<and> pre w = [] then 0
      else if pre v = [] then 1
      else if pre w = [] then - 1
      else comparePrerelease (Split (pre v) ''.'') (Split (pre w) ''.''))"

record comparator =
  origfunc :: string
  con :: version
  minorDirty :: bool
  patchDirty :: bool
  dirty :: bool

definition isX :: "string \<Rightarrow> bool" where
  "isX x = (x = ''x'' \<or> x = ''X'' \<or> x = ''*'')"

definition parseConstraint :: "string \<times> string \<Rightarrow> comparator option" where
  "parseConstraint oc =
     (case oc of (opr, cv) \<Rightarrow>
      (case versionFields cv of
         None \<Rightarrow> None
       | Some (parts, p, m) \<Rightarrow>
           if \<not> list_all (\<lambda>part. part \<noteq> [] \<and> list_all (\<lambda>c. c \<in> set ''0123456789xX*|'') part) parts
           then None
           else
             (let suffix = (if p = [] then [] else ''-'' @ p) in
              if isX (parts ! 0) then
                map_option (\<lambda>v. \<lparr>origfunc = opr, con = v, minorDirty = False,
                                  patchDirty = False, dirty = True\<rparr>)
                  (semverNewVersion (''0.0.0'' @ suffix))
              else if length parts < 2 \<or> isX (parts ! 1) then
                map_option (\<lambda>v. \<lparr>origfunc = opr, con = v, minorDirty = True,
                                  patchDirty = False, dirty = True\<rparr>)
                  (semverNewVersion (parts ! 0 @ ''.0.0'' @ suffix))
              else if length parts < 3 \<or> isX (parts ! 2) then
                map_option (\<lambda>v. \<lparr>origfunc = opr, con = v, minorDirty = False,
                                  patchDirty = True, dirty = True\<rparr>)
                  (semverNewVersion (parts ! 0 @ ''.'' @ parts ! 1 @ ''.0'' @ suffix))
              else
                map_option (\<lambda>v. \<lparr>origfunc = opr, con = v, minorDirty = False,
                                  patchDirty = False, dirty = False\<rparr>)
                  (semverNewVersion cv))))"

definition isBlank :: "char \<Rightarrow> bool" where
  "isBlank c = (c \<in> set [CHR 0x09, CHR 0x0A, CHR 0x0C, CHR 0x0D, CHR 0x20])"

definition isOpChar :: "char \<Rightarrow> bool" where
  "isOpChar c = (c \<in> set ''=!<>~^'')"

definition isTokenChar :: "char \<Rightarrow> bool" where
  "isTokenChar c = (\<not> isBlank c \<and> c \<noteq> CHR '','')"

definition constraintOps :: "string list" where
  "constraintOps = [[], ''='', ''>'', ''<'', ''>='', ''=>'', ''<='', ''=<'', ''~'', ''~>'', ''^'']"

text \<open>The comparators of one alternative, each as its operator and its version text.\<close>

function comparators :: "string \<Rightarrow> (string \<times> string) list option" where
  "comparators s =
     (let s1 = dropWhile isBlank s;
          opr = takeWhile isOpChar s1;
          s2 = dropWhile isBlank (dropWhile isOpChar s1);
          cv = takeWhile isTokenChar s2;
          s3 = dropWhile isBlank (dropWhile isTokenChar s2)
      in if cv = [] \<or> opr \<notin> set constraintOps then None
         else if s3 = [] then Some [(opr, cv)]
         else map_option (Cons (opr, cv))
                (comparators (if hd s3 = CHR '','' then tl s3 else s3)))"
  by pat_completeness auto

lemma comparators_shorter:
  assumes "takeWhile isTokenChar (dropWhile isBlank (dropWhile isOpChar (dropWhile isBlank s))) \<noteq> []"
  shows "length (dropWhile isBlank (dropWhile isTokenChar
           (dropWhile isBlank (dropWhile isOpChar (dropWhile isBlank s))))) < length s"
proof -
  define s2 where "s2 = dropWhile isBlank (dropWhile isOpChar (dropWhile isBlank s))"
  have a: "length s2 \<le> length s"
    unfolding s2_def
    by (meson length_dropWhile_le order_trans)
  have "length (takeWhile isTokenChar s2) + length (dropWhile isTokenChar s2) = length s2"
    by (metis length_append takeWhile_dropWhile_id)
  moreover from assms have "0 < length (takeWhile isTokenChar s2)"
    by (simp add: s2_def)
  ultimately have b: "length (dropWhile isTokenChar s2) < length s2"
    by arith
  have "length (dropWhile isBlank (dropWhile isTokenChar s2)) \<le> length (dropWhile isTokenChar s2)"
    by (rule length_dropWhile_le)
  with a b show ?thesis
    unfolding s2_def by arith
qed

termination comparators
proof (relation "measure length")
  show "wf (measure length)" by simp
next
  fix s s1 opr s2 cv s3 :: string
  assume d: "s1 = dropWhile isBlank s" "s2 = dropWhile isBlank (dropWhile isOpChar s1)"
    "cv = takeWhile isTokenChar s2" "s3 = dropWhile isBlank (dropWhile isTokenChar s2)"
    and c: "\<not> (cv = [] \<or> opr \<notin> set constraintOps)"
  from d c comparators_shorter [of s] have "length s3 < length s"
    by simp
  then have "length (tl s3) < length s" and "length s3 < length s"
    by (simp_all add: less_imp_diff_less)
  then show "((if hd s3 = CHR '','' then tl s3 else s3), s) \<in> measure length"
    by (simp del: length_tl)
qed

declare comparators.simps [simp del]

definition semverNewConstraint :: "string \<Rightarrow> comparator list list option" where
  "semverNewConstraint c =
     those (map (\<lambda>alternative.
        (case comparators alternative of
           None \<Rightarrow> None
         | Some cs \<Rightarrow> those (map parseConstraint cs))) (Split c ''||''))"

text \<open>The check of one comparator, by its operator.\<close>

definition prereleaseExcluded :: "version \<Rightarrow> comparator \<Rightarrow> bool" where
  "prereleaseExcluded v c = (pre v \<noteq> [] \<and> pre (con c) = [])"

definition constraintTilde :: "version \<Rightarrow> comparator \<Rightarrow> bool" where
  "constraintTilde v c =
     (if prereleaseExcluded v c then False
      else if Compare v (con c) < 0 then False
      else if major (con c) = 0 \<and> minor (con c) = 0 \<and> patch (con c) = 0
              \<and> \<not> minorDirty c \<and> \<not> patchDirty c then True
      else if major v \<noteq> major (con c) then False
      else if minor v \<noteq> minor (con c) \<and> \<not> minorDirty c then False
      else True)"

definition constraintTildeOrEqual :: "version \<Rightarrow> comparator \<Rightarrow> bool" where
  "constraintTildeOrEqual v c =
     (if prereleaseExcluded v c then False
      else if dirty c then constraintTilde v c
      else Compare v (con c) = 0)"

definition constraintGreaterThan :: "version \<Rightarrow> comparator \<Rightarrow> bool" where
  "constraintGreaterThan v c =
     (if prereleaseExcluded v c then False
      else if \<not> dirty c then Compare v (con c) = 1
      else if major v > major (con c) then True
      else if major v < major (con c) then False
      else if minorDirty c then False
      else if patchDirty c then minor v > minor (con c)
      else Compare v (con c) = 1)"

definition constraintLessThan :: "version \<Rightarrow> comparator \<Rightarrow> bool" where
  "constraintLessThan v c =
     (if prereleaseExcluded v c then False else Compare v (con c) < 0)"

definition constraintGreaterThanEqual :: "version \<Rightarrow> comparator \<Rightarrow> bool" where
  "constraintGreaterThanEqual v c =
     (if prereleaseExcluded v c then False else Compare v (con c) \<ge> 0)"

definition constraintLessThanEqual :: "version \<Rightarrow> comparator \<Rightarrow> bool" where
  "constraintLessThanEqual v c =
     (if prereleaseExcluded v c then False
      else if \<not> dirty c then Compare v (con c) \<le> 0
      else if major v > major (con c) then False
      else if major v = major (con c) \<and> minor v > minor (con c) \<and> \<not> minorDirty c then False
      else True)"

definition constraintCaret :: "version \<Rightarrow> comparator \<Rightarrow> bool" where
  "constraintCaret v c =
     (if prereleaseExcluded v c then False
      else if Compare v (con c) < 0 then False
      else if major (con c) > 0 \<or> minorDirty c then major v = major (con c)
      else if major (con c) = 0 \<and> major v > 0 then False
      else if minor (con c) > 0 \<or> patchDirty c then minor v = minor (con c)
      else if minor (con c) = 0 \<and> minor v > 0 then False
      else patch (con c) = patch v)"

definition checkComparator :: "version \<Rightarrow> comparator \<Rightarrow> bool" where
  "checkComparator v c =
     (let f = origfunc c in
      if f = [] \<or> f = ''='' then constraintTildeOrEqual v c
      else if f = ''>'' then constraintGreaterThan v c
      else if f = ''<'' then constraintLessThan v c
      else if f = ''>='' \<or> f = ''=>'' then constraintGreaterThanEqual v c
      else if f = ''<='' \<or> f = ''=<'' then constraintLessThanEqual v c
      else if f = ''~'' \<or> f = ''~>'' then constraintTilde v c
      else constraintCaret v c)"

text \<open>A version satisfies a constraint when it passes every comparator of an alternative.\<close>

definition semverCheck :: "comparator list list \<Rightarrow> version \<Rightarrow> bool" where
  "semverCheck cs v = list_ex (list_all (checkComparator v)) cs"

definition masterminds :: "(version, comparator list list) semver" where
  "masterminds =
     \<lparr>NewVersion = semverNewVersion, NewConstraint = semverNewConstraint,
      Check = semverCheck, Equal = (\<lambda>v w. Compare v w = 0), Prerelease = pre,
      Major = major, Minor = minor, Patch = patch\<rparr>"

section \<open>Notions used to state the properties\<close>

text \<open>
  The detection of a range specifier as the spec words it, on the string as it is:
  it starts with one of the operators, or contains a space, or contains a comma. The
  source's \<open>isConstraintNotVersion\<close> makes the same three tests after
  \<open>strings.TrimSpace\<close>.
\<close>

definition rangeSpecifierAsWorded :: "string \<Rightarrow> bool" where
  "rangeSpecifierAsWorded s =
     (list_ex (HasPrefix s) constraintPrefixes \<or> Contains s '' '' \<or> Contains s '','')"

text \<open>
  The four scanners of \<open>ScanAction\<close>, each run on its own file and alone, in the order
  of \<open>ScanAction\<close>; a file that is not there gives no findings.
\<close>

definition scannerRuns ::
  "('v, 'c) semver \<Rightarrow> string \<Rightarrow> 'r ActionDir \<Rightarrow> VulnerablePackage list
     \<Rightarrow> (error + string list) list"
where
  "scannerRuns L actionDir files vulnerablePackages =
     (let vulnerablePackageMap = buildVulnerablePackageMap vulnerablePackages in
      [scanBlock (packageJSON files)
         (\<lambda>data. scanPackageJSONOptimized L (filepathJoin actionDir ''package.json'') data
            vulnerablePackageMap) [],
       scanBlock (packageLockJSON files)
         (\<lambda>data. scanPackageLockJSONOptimized L (filepathJoin actionDir ''package-lock.json'')
            data vulnerablePackageMap) [],
       scanBlock (yarnLock files)
         (\<lambda>data. scanYarnLockOptimized L (filepathJoin actionDir ''yarn.lock'') data
            vulnerablePackageMap) [],
       scanBlock (pnpmLock files)
         (\<lambda>data. scanPnpmLockOptimized L (filepathJoin actionDir ''pnpm-lock.yaml'') data
            vulnerablePackageMap) []])"

text \<open>
  Two runs on the same file see the same maps, visited in orders that may differ: two
  lists with the same entries. The relations below say this of a map, of the nested
  tree of \<open>package-lock.json\<close> (at every level), and of the three decoded documents.
\<close>

definition sameMap :: "'a gomap \<Rightarrow> 'a gomap \<Rightarrow> bool" where
  "sameMap m1 m2 = (mset m1 = mset m2)"

inductive sameTree :: "PackageLockInfo \<Rightarrow> PackageLockInfo \<Rightarrow> bool" where
  sameTreeI:
    "list_all2 (\<lambda>x y. fst x = fst y \<and> sameTree (snd x) (snd y)) ds ds'
       \<Longrightarrow> mset ds' = mset ds''
       \<Longrightarrow> sameTree (PackageLockInfo v ds) (PackageLockInfo v ds'')"

definition samePackageJSON :: "PackageJSON \<Rightarrow> PackageJSON \<Rightarrow> bool" where
  "samePackageJSON a b =
     (rel_option sameMap (PackageJSON_Dependencies a) (PackageJSON_Dependencies b)
      \<and> rel_option sameMap (PackageJSON_DevDependencies a) (PackageJSON_DevDependencies b)
      \<and> rel_option sameMap (PackageJSON_PeerDependencies a) (PackageJSON_PeerDependencies b)
      \<and> rel_option sameMap (PackageJSON_OptionalDependencies a)
            (PackageJSON_OptionalDependencies b)
      \<and> PackageJSON_BundledDependencies a = PackageJSON_BundledDependencies b)"

definition samePackageLockJSON :: "PackageLockJSON \<Rightarrow> PackageLockJSON \<Rightarrow> bool" where
  "samePackageLockJSON a b =
     (PackageLockJSON_LockfileVersion a = PackageLockJSON_LockfileVersion b
      \<and> sameMap (PackageLockJSON_Packages a) (PackageLockJSON_Packages b)
      \<and> sameTree (PackageLockInfo [] (PackageLockJSON_Dependencies a))
            (PackageLockInfo [] (PackageLockJSON_Dependencies b)))"

definition samePnpmLock :: "'r PnpmLock \<Rightarrow> 'r PnpmLock \<Rightarrow> bool" where
  "samePnpmLock a b =
     (rel_option sameMap (PnpmLock_Dependencies a) (PnpmLock_Dependencies b)
      \<and> rel_option sameMap (PnpmLock_DevDependencies a) (PnpmLock_DevDependencies b)
      \<and> sameMap (PnpmLock_Packages a) (PnpmLock_Packages b))"

section \<open>The tables of the repository's tests\<close>

text \<open>
  The model, with the instance \<open>masterminds\<close> for the version module, gives the expected
  value on every row of the test tables of the repository.
\<close>

lemma TestIsVersionVulnerable:
  "map (\<lambda>(installedVersion, vulnerableVersions).
          isVersionVulnerable masterminds installedVersion vulnerableVersions)
     [(''4.1.1'', [''4.1.1'']),
      (''^4.1.0'', [''4.1.1'']),
      (''^3.0.0'', [''4.1.1'']),
      (''~4.1.0'', [''4.1.1'']),
      (''~4.0.0'', [''4.1.1'']),
      (''4.1.2'', [''4.1.1'', ''4.1.2'', ''4.1.3'']),
      (''4.2.0'', [''4.1.1'', ''4.1.2'', ''4.1.3'']),
      (''>=4.1.0'', [''4.1.1'']),
      (''4.1.5'', [''>=4.1.1 <4.2.0'']),
      (''4.2.0'', [''>=4.1.1 <4.2.0'']),
      (''latest'', [''latest''])]
   = [True, True, False, True, False, True, False, True, True, False, True]"
  by code_simp

lemma TestPrereleaseVersionHandling:
  "map (\<lambda>(installedVersion, vulnerableVersions).
          isVersionVulnerable masterminds installedVersion vulnerableVersions)
     [(''4.1.2-alpha.1'', [''4.1.1'']),
      (''4.1.1'', [''4.1.1-beta.1''])]
   = [False, False]"
  by code_simp

lemma TestVulnerablePackageMapOptimization:
  "map (\<lambda>(packageName, version).
          fst (isVulnerable masterminds
            (buildVulnerablePackageMap
               [\<lparr>Name = ''@ctrl/tinycolor'', Versions = [''4.1.1'']\<rparr>,
                \<lparr>Name = ''lodash'', Versions = [''4.17.20'', ''4.17.19'']\<rparr>,
                \<lparr>Name = ''@angular/core'', Versions = [''>=15.0.0 <15.2.0'']\<rparr>])
            packageName version))
     [(''@ctrl/tinycolor'', ''4.1.1''),
      (''safe-package'', ''1.0.0''),
      (''lodash'', ''4.17.21''),
      (''@angular/core'', ''15.1.0'')]
   = [True, False, False, True]"
  by code_simp

lemma TestCleanVersionString:
  "map cleanVersionString
     [''^4.1.0'', ''~4.1.0'', ''>=4.1.0'', ''<=4.1.0'', ''>4.1.0'', ''<4.1.0'', ''=4.1.0'',
      ''4.1.0'', '' ^4.1.0 '']
   = [''4.1.0'', ''4.1.0'', ''4.1.0'', ''4.1.0'', ''4.1.0'', ''4.1.0'', ''4.1.0'', ''4.1.0'',
      ''4.1.0'']"
  by code_simp

lemma TestExtractVersionFromResolved:
  "map extractVersionFromResolved
     [''https://registry.npmjs.org/@ctrl/tinycolor/-/tinycolor-4.1.1.tgz'',
      ''https://registry.npmjs.org/@angular/core/-/core-15.2.3.tgz'',
      ''https://registry.npmjs.org/lodash/-/lodash-4.17.21.tgz'',
      [],
      ''https://example.com/invalid'',
      ''https://registry.npmjs.org/react/-/react-18.0.0-beta.0.tgz'']
   = [''4.1.1'', ''15.2.3'', ''4.17.21'', [], [], ''18.0.0-beta.0'']"
  by code_simp

lemma TestGetActualVersion:
  "map (\<lambda>(declared, resolved). getActualVersion declared resolved)
     [(''^4.1.0'', ''https://registry.npmjs.org/@ctrl/tinycolor/-/tinycolor-4.1.1.tgz''),
      (''4.1.0'', ''https://example.com/invalid''),
      (''~4.1.0'', [])]
   = [''4.1.1'', ''4.1.0'', ''~4.1.0'']"
  by code_simp

lemma TestExtractPackageNameAndVersionFromPnpmPath:
  "map extractPackageNameAndVersionFromPnpmPath
     [''/@ctrl/tinycolor/4.1.1'', ''/lodash/4.17.20'', ''/@babel/core/7.12.3'',
      ''/react-dom/17.0.2'', ''/@types/node/14.14.31'']
   = [(''@ctrl/tinycolor'', ''4.1.1''), (''lodash'', ''4.17.20''), (''@babel/core'', ''7.12.3''),
      (''react-dom'', ''17.0.2''), (''@types/node'', ''14.14.31'')]"
  by code_simp

lemma TestScanActionWithYarnLock:
  \<open>ScanAction masterminds ''action''
     (\<lparr>packageJSON = None, packageLockJSON = None,
       yarnLock = Some (Bytes (''"@ctrl/tinycolor@^4.1.1":'' @ [CHR 0x0A]
                                 @ ''  version "4.1.1"'' @ [CHR 0x0A])),
       pnpmLock = None\<rparr> :: unit ActionDir)
     [\<lparr>Name = ''@ctrl/tinycolor'', Versions = [''4.1.1'']\<rparr>]
   = Inr [''Found vulnerable package @ctrl/tinycolor with version 4.1.1 in yarn.lock'']\<close>
  by code_simp

lemma TestScanActionWithPnpmLock:
  "ScanAction masterminds ''action''
     (\<lparr>packageJSON = None, packageLockJSON = None, yarnLock = None,
       pnpmLock = Some (Bytes (Decoded
         \<lparr>PnpmLock_LockfileVersion = 0, PnpmLock_Dependencies = None,
          PnpmLock_DevDependencies = None,
          PnpmLock_Packages =
            [(''/@ctrl/tinycolor/4.1.1'',
              \<lparr>PnpmPackageInfo_Resolution = (), PnpmPackageInfo_Version = [],
                PnpmPackageInfo_Dev = False, PnpmPackageInfo_Dependencies = []\<rparr>)],
          PnpmLock_Specifiers = []\<rparr>))\<rparr> :: unit ActionDir)
     [\<lparr>Name = ''@ctrl/tinycolor'', Versions = [''4.1.1'']\<rparr>]
   = Inr [''Found vulnerable package @ctrl/tinycolor with version 4.1.1 in pnpm-lock.yaml'']"
  by code_simp

lemma TestScanActionWithResolvedVersions:
  "ScanAction masterminds ''action''
     (\<lparr>packageJSON = None,
       packageLockJSON = Some (Bytes (Decoded
         \<lparr>PackageLockJSON_LockfileVersion = 2,
          PackageLockJSON_Packages =
            [(''node_modules/@ctrl/tinycolor'',
              \<lparr>PackageLockPackageInfo_Version = ''^4.1.0'',
                PackageLockPackageInfo_Resolved =
                  ''https://registry.npmjs.org/@ctrl/tinycolor/-/tinycolor-4.1.1.tgz'',
                PackageLockPackageInfo_Dependencies = []\<rparr>)],
          PackageLockJSON_Dependencies = []\<rparr>)),
       yarnLock = None, pnpmLock = None\<rparr> :: unit ActionDir)
     [\<lparr>Name = ''@ctrl/tinycolor'', Versions = [''4.1.1'']\<rparr>]
   = Inr [''Found vulnerable package @ctrl/tinycolor with version 4.1.1 in package-lock.json'']"
  by code_simp

section \<open>Properties of the version extractor\<close>

lemma Split_no_separator: "sep \<noteq> [] \<Longrightarrow> Index s sep = None \<Longrightarrow> Split s sep = [s]"
  by (simp add: Split.simps)

lemma extractVersionFromResolved_no_separator:
  "\<not> Contains s ''/-/'' \<Longrightarrow> extractVersionFromResolved s = []"
  by (simp add: extractVersionFromResolved_def Contains_def Split_no_separator)

lemma versionStartIdx_Some:
  "versionStartIdx i ps = Some idx \<Longrightarrow>
     \<exists>k<length ps. idx = i + k \<and> ps ! k \<noteq> [] \<and> isDigit (hd (ps ! k))"
proof (induction ps arbitrary: i)
  case Nil
  then show ?case by simp
next
  case (Cons p ps)
  show ?case
  proof (cases "0 < length p \<and> isDigit (hd p)")
    case True
    with Cons.prems have "idx = i" by simp
    with True show ?thesis by auto
  next
    case False
    with Cons.prems have "versionStartIdx (Suc i) ps = Some idx" by auto
    from Cons.IH [OF this] obtain k where
      "k < length ps" "idx = Suc i + k" "ps ! k \<noteq> []" "isDigit (hd (ps ! k))"
      by blast
    then have "Suc k < length (p # ps) \<and> idx = i + Suc k \<and> (p # ps) ! Suc k \<noteq> []
        \<and> isDigit (hd ((p # ps) ! Suc k))"
      by simp
    then show ?thesis by blast
  qed
qed

lemma Join_hd: "p \<noteq> [] \<Longrightarrow> Join (p # ps) sep \<noteq> [] \<and> hd (Join (p # ps) sep) = hd p"
  by (cases ps) simp_all

lemma extractVersionFromResolved_digit:
  assumes "extractVersionFromResolved s \<noteq> []"
  shows "isDigit (hd (extractVersionFromResolved s))"
proof -
  define dashParts where
    "dashParts = Split (TrimSuffix (last (Split s ''/-/'')) ''.tgz'') ''-''"
  from assms obtain idx where
    idx: "versionStartIdx 1 (drop 1 dashParts) = Some idx"
    and res: "extractVersionFromResolved s = Join (drop idx dashParts) ''-''"
    by (auto simp: extractVersionFromResolved_def Let_def dashParts_def
        split: if_splits option.splits)
  from versionStartIdx_Some [OF idx] obtain k where
    k: "k < length (drop 1 dashParts)" "idx = 1 + k" "drop 1 dashParts ! k \<noteq> []"
    "isDigit (hd (drop 1 dashParts ! k))"
    by blast
  then have lt: "idx < length dashParts" by simp
  from k lt have p: "dashParts ! idx \<noteq> []" "isDigit (hd (dashParts ! idx))"
    by simp_all
  from lt have "drop idx dashParts = dashParts ! idx # drop (Suc idx) dashParts"
    by (simp add: Cons_nth_drop_Suc)
  with p Join_hd [of "dashParts ! idx" "drop (Suc idx) dashParts" "''-''"] res
  show ?thesis by simp
qed

lemma extractVersionFromResolved_tinycolor:
  "extractVersionFromResolved
     ''https://registry.example.org/@ctrl/tinycolor/-/tinycolor-4.1.1.tgz'' = ''4.1.1''"
  by code_simp

text \<open>
  C4: on the registry URL of \<open>@ctrl/tinycolor\<close> 4.1.1 the extractor returns \<open>4.1.1\<close>; on
  the empty string and on every string without the separator \<open>/-/\<close> it returns the
  empty string; \<open>getActualVersion\<close> returns the extractor's result when that is not
  empty and the declared version otherwise, so that a declared \<open>^4.1.0\<close> with that URL
  gives \<open>4.1.1\<close>.
\<close>

theorem extractVersionFromResolved_contract:
  "extractVersionFromResolved
     ''https://registry.example.org/@ctrl/tinycolor/-/tinycolor-4.1.1.tgz'' = ''4.1.1''
   \<and> extractVersionFromResolved [] = []
   \<and> (\<forall>s. \<not> Contains s ''/-/'' \<longrightarrow> extractVersionFromResolved s = [])
   \<and> (\<forall>declared resolved.
         getActualVersion declared resolved =
           (if extractVersionFromResolved resolved \<noteq> []
            then extractVersionFromResolved resolved else declared))
   \<and> getActualVersion ''^4.1.0''
         ''https://registry.example.org/@ctrl/tinycolor/-/tinycolor-4.1.1.tgz'' = ''4.1.1''"
proof (intro conjI allI impI)
  show "extractVersionFromResolved
     ''https://registry.example.org/@ctrl/tinycolor/-/tinycolor-4.1.1.tgz'' = ''4.1.1''"
    by (rule extractVersionFromResolved_tinycolor)
  show "extractVersionFromResolved [] = []"
    by (simp add: extractVersionFromResolved_def)
  show "extractVersionFromResolved s = []" if "\<not> Contains s ''/-/''" for s
    using that by (rule extractVersionFromResolved_no_separator)
  show "getActualVersion declared resolved =
      (if extractVersionFromResolved resolved \<noteq> []
       then extractVersionFromResolved resolved else declared)" for declared resolved
    by (simp add: getActualVersion_def Let_def)
  show "getActualVersion ''^4.1.0''
      ''https://registry.example.org/@ctrl/tinycolor/-/tinycolor-4.1.1.tgz'' = ''4.1.1''"
    by (simp add: getActualVersion_def Let_def extractVersionFromResolved_tinycolor)
qed

theorem extractVersionFromResolved_contract_witness:
  "\<not> Contains ''https://example.com/invalid'' ''/-/''
   \<and> extractVersionFromResolved ''https://example.com/invalid'' = []
   \<and> getActualVersion ''4.1.0'' ''https://example.com/invalid'' = ''4.1.0''"
proof -
  have h: "\<not> Contains ''https://example.com/invalid'' ''/-/''"
    by code_simp
  from extractVersionFromResolved_contract h
  have e: "extractVersionFromResolved ''https://example.com/invalid'' = []"
    by blast
  from extractVersionFromResolved_contract
  have "getActualVersion ''4.1.0'' ''https://example.com/invalid'' =
      (if extractVersionFromResolved ''https://example.com/invalid'' \<noteq> []
       then extractVersionFromResolved ''https://example.com/invalid'' else ''4.1.0'')"
    by blast
  with h e show ?thesis by simp
qed

text \<open>
  C10: a non-empty result of the extractor starts with an ASCII digit, so
  \<open>getActualVersion\<close> returns either the declared version or a string that starts with
  a digit.
\<close>

theorem extractVersionFromResolved_starts_with_digit:
  "(extractVersionFromResolved resolved \<noteq> []
      \<longrightarrow> isDigit (hd (extractVersionFromResolved resolved)))
   \<and> (getActualVersion declared resolved = declared
        \<or> (getActualVersion declared resolved \<noteq> []
            \<and> isDigit (hd (getActualVersion declared resolved))))"
  by (simp add: getActualVersion_def Let_def extractVersionFromResolved_digit)

theorem extractVersionFromResolved_starts_with_digit_witness:
  "extractVersionFromResolved ''https://registry.npmjs.org/react/-/react-18.0.0-beta.0.tgz'' \<noteq> []
   \<and> isDigit (hd (extractVersionFromResolved
         ''https://registry.npmjs.org/react/-/react-18.0.0-beta.0.tgz''))
   \<and> getActualVersion ''^18.0.0'' ''https://registry.npmjs.org/react/-/react-18.0.0-beta.0.tgz''
        \<noteq> ''^18.0.0''"
proof -
  have h: "extractVersionFromResolved
      ''https://registry.npmjs.org/react/-/react-18.0.0-beta.0.tgz'' = ''18.0.0-beta.0''"
    by code_simp
  then have n: "extractVersionFromResolved
      ''https://registry.npmjs.org/react/-/react-18.0.0-beta.0.tgz'' \<noteq> []"
    by simp
  from extractVersionFromResolved_starts_with_digit
    [of "''https://registry.npmjs.org/react/-/react-18.0.0-beta.0.tgz''"] n
  have "isDigit (hd (extractVersionFromResolved
      ''https://registry.npmjs.org/react/-/react-18.0.0-beta.0.tgz''))"
    by blast
  with n h show ?thesis by (simp add: getActualVersion_def Let_def)
qed

section \<open>Properties of the version matcher\<close>

text \<open>
  C1: an installed string that is equal to an entry of the vulnerable list is
  vulnerable, whatever the entry looks like and whatever the version module does.
\<close>

theorem isVersionVulnerable_exact_match:
  "installedVersion \<in> set vulnerableVersions
     \<Longrightarrow> isVersionVulnerable L installedVersion vulnerableVersions"
  by (auto simp: isVersionVulnerable_def list_ex_iff)

theorem isVersionVulnerable_exact_match_witness:
  "''latest'' \<in> set [''4.1.1'', ''latest'']
   \<and> isVersionVulnerable masterminds ''latest'' [''4.1.1'', ''latest'']"
proof -
  have h: "''latest'' \<in> set [''4.1.1'', ''latest'']" by simp
  from isVersionVulnerable_exact_match [OF h, of masterminds] h show ?thesis by blast
qed

lemma isVersionVulnerable_constraint:
  assumes "isConstraintNotVersion installedVersion"
    and "NewConstraint L installedVersion = Some installedConstraint"
  shows "isVersionVulnerable L installedVersion vulnerableVersions =
    (installedVersion \<in> set vulnerableVersions
     \<or> (\<exists>vulnVersion \<in> set vulnerableVersions. \<exists>vulnVer.
           NewVersion L vulnVersion = Some vulnVer \<and> Check L installedConstraint vulnVer))"
proof -
  have "list_ex (constraintMatch L installedConstraint) vulnerableVersions =
      (\<exists>vulnVersion \<in> set vulnerableVersions. \<exists>vulnVer.
         NewVersion L vulnVersion = Some vulnVer \<and> Check L installedConstraint vulnVer)"
    by (auto simp: list_ex_iff constraintMatch_def split: option.splits)
  with assms show ?thesis
    by (auto simp: isVersionVulnerable_def list_ex_iff)
qed

lemma isConstraintNotVersion_trimmed:
  "isConstraintNotVersion s = rangeSpecifierAsWorded (TrimSpace s)"
  by (simp add: isConstraintNotVersion_def rangeSpecifierAsWorded_def Let_def)

text \<open>
  C2, as the code has it: for an installed string that the detector
  \<open>isConstraintNotVersion\<close> accepts (the three tests are made on the string without its
  leading and trailing white space) and that parses as a constraint, and a vulnerable
  list of one entry that parses as an exact version, the answer is true when the entry
  satisfies the constraint, and false when it does not and is not the installed string
  itself. The parse of the installed string as an exact version plays no part.
\<close>

theorem isVersionVulnerable_range_against_exact:
  assumes "isConstraintNotVersion r"
    and "NewConstraint L r = Some c"
    and "NewVersion L e = Some v"
  shows "isVersionVulnerable L r [e] = (r = e \<or> Check L c v)"
  using isVersionVulnerable_constraint [OF assms(1,2), of "[e]"] assms(3) by auto

theorem isVersionVulnerable_range_against_exact_witness:
  "isConstraintNotVersion ''^4.1.0''
   \<and> NewConstraint masterminds ''^4.1.0'' \<noteq> None
   \<and> NewVersion masterminds ''4.1.1'' \<noteq> None
   \<and> NewVersion masterminds ''5.0.0'' \<noteq> None
   \<and> Check masterminds (the (NewConstraint masterminds ''^4.1.0''))
        (the (NewVersion masterminds ''4.1.1''))
   \<and> isVersionVulnerable masterminds ''^4.1.0'' [''4.1.1'']
   \<and> \<not> isVersionVulnerable masterminds ''^4.1.0'' [''5.0.0'']"
proof -
  obtain c where c: "NewConstraint masterminds ''^4.1.0'' = Some c"
    by (cases "NewConstraint masterminds ''^4.1.0''") (simp_all, code_simp)
  obtain v where v: "NewVersion masterminds ''4.1.1'' = Some v"
    by (cases "NewVersion masterminds ''4.1.1''") (simp_all, code_simp)
  obtain w where w: "NewVersion masterminds ''5.0.0'' = Some w"
    by (cases "NewVersion masterminds ''5.0.0''") (simp_all, code_simp)
  have d: "isConstraintNotVersion ''^4.1.0''"
    by code_simp
  have sat: "Check masterminds (the (NewConstraint masterminds ''^4.1.0''))
      (the (NewVersion masterminds ''4.1.1''))"
    by code_simp
  have unsat: "\<not> Check masterminds (the (NewConstraint masterminds ''^4.1.0''))
      (the (NewVersion masterminds ''5.0.0''))"
    by code_simp
  from isVersionVulnerable_range_against_exact [OF d c v] sat c v
  have yes: "isVersionVulnerable masterminds ''^4.1.0'' [''4.1.1'']"
    by simp
  from isVersionVulnerable_range_against_exact [OF d c w] unsat c w
  have no: "\<not> isVersionVulnerable masterminds ''^4.1.0'' [''5.0.0'']"
    by simp
  from d c v w sat yes no show ?thesis by simp
qed

text \<open>
  The claim C2 as worded fails: \<open>* \<close> (a star and a space) contains a space and parses
  as a constraint that the exact version 1.0.0 satisfies, but the detector trims the
  space, finds no range specifier, and the string is then not a version either.
\<close>

theorem isVersionVulnerable_range_as_worded_counterexample:
  "rangeSpecifierAsWorded ''* ''
   \<and> NewConstraint masterminds ''* '' \<noteq> None
   \<and> NewVersion masterminds ''1.0.0'' \<noteq> None
   \<and> Check masterminds (the (NewConstraint masterminds ''* ''))
        (the (NewVersion masterminds ''1.0.0''))
   \<and> \<not> isVersionVulnerable masterminds ''* '' [''1.0.0'']"
  by code_simp

lemma isVersionVulnerable_not_detected:
  assumes "\<not> isConstraintNotVersion installedVersion"
    and "\<forall>e \<in> set vulnerableVersions. NewVersion L e = None"
  shows "isVersionVulnerable L installedVersion vulnerableVersions =
    (installedVersion \<in> set vulnerableVersions
     \<or> (\<exists>installedVer. NewVersion L (cleanVersionString installedVersion) = Some installedVer
          \<and> (\<exists>e \<in> set vulnerableVersions. \<exists>constraint.
                 NewConstraint L e = Some constraint \<and> Check L constraint installedVer)))"
proof -
  from assms(2) have exact: "\<not> list_ex (exactMatch L v) vulnerableVersions" for v
    by (auto simp: list_ex_iff exactMatch_def)
  from assms(2) have version: "list_ex (versionMatch L v) vulnerableVersions =
      (\<exists>e \<in> set vulnerableVersions. \<exists>constraint.
         NewConstraint L e = Some constraint \<and> Check L constraint v)" for v
    by (auto simp: list_ex_iff versionMatch_def exactMatch_def split: option.splits)
  have mem: "list_ex (\<lambda>vulnVersion. installedVersion = vulnVersion) vulnerableVersions =
      (installedVersion \<in> set vulnerableVersions)"
    by (auto simp: list_ex_iff)
  from assms(1) show ?thesis
    by (auto simp: isVersionVulnerable_def exact version mem split: option.splits)
qed

text \<open>
  C7, as the code has it: for an installed string that is a range specifier as the spec
  words it and that parses as a constraint, and vulnerable entries none of which parses
  as an exact version, the answer is true when the installed string is one of the
  entries, and otherwise only in one case: the detector \<open>isConstraintNotVersion\<close>, which
  tests the string without its leading and trailing white space, does not accept the
  installed string, the cleaned installed string parses as an exact version, and that
  version satisfies an entry that parses as a constraint. So the answer is false unless
  the strings are equal whenever the detector accepts the installed string, whenever
  the installed string without its white space is no exact version (\<open>*\<close> followed by a
  space), and whenever the entries are opaque literals such as \<open>latest\<close>.
\<close>

theorem isVersionVulnerable_range_against_opaque:
  assumes "rangeSpecifierAsWorded r"
    and "NewConstraint L r = Some c"
    and "\<forall>e \<in> set vulnerableVersions. NewVersion L e = None"
  shows "isVersionVulnerable L r vulnerableVersions =
    (r \<in> set vulnerableVersions
     \<or> (\<not> isConstraintNotVersion r
         \<and> (\<exists>installedVer. NewVersion L (cleanVersionString r) = Some installedVer
              \<and> (\<exists>e \<in> set vulnerableVersions. \<exists>constraint.
                     NewConstraint L e = Some constraint \<and> Check L constraint installedVer))))"
proof (cases "isConstraintNotVersion r")
  case True
  with isVersionVulnerable_constraint [OF True assms(2), of vulnerableVersions] assms(3)
  show ?thesis by auto
next
  case False
  with isVersionVulnerable_not_detected [OF False assms(3)]
  show ?thesis by simp
qed

theorem isVersionVulnerable_range_against_opaque_witness:
  "rangeSpecifierAsWorded ''^4.1.0''
   \<and> NewConstraint masterminds ''^4.1.0'' \<noteq> None
   \<and> NewVersion masterminds ''latest'' = None
   \<and> \<not> isVersionVulnerable masterminds ''^4.1.0'' [''latest'']
   \<and> rangeSpecifierAsWorded ''* ''
   \<and> NewConstraint masterminds ''* '' \<noteq> None
   \<and> NewVersion masterminds ''>=0.5.0'' = None
   \<and> \<not> isVersionVulnerable masterminds ''* '' [''latest'', ''>=0.5.0'']"
proof -
  obtain c where c: "NewConstraint masterminds ''^4.1.0'' = Some c"
    by (cases "NewConstraint masterminds ''^4.1.0''") (simp_all, code_simp)
  obtain c' where c': "NewConstraint masterminds ''* '' = Some c'"
    by (cases "NewConstraint masterminds ''* ''") (simp_all, code_simp)
  have w: "rangeSpecifierAsWorded ''^4.1.0''" and w': "rangeSpecifierAsWorded ''* ''"
    by code_simp+
  have d: "isConstraintNotVersion ''^4.1.0''"
    by code_simp
  have n: "NewVersion masterminds ''latest'' = None"
    and n': "NewVersion masterminds ''>=0.5.0'' = None"
    by code_simp+
  have star: "NewVersion masterminds (cleanVersionString ''* '') = None"
    by code_simp
  from n have a: "\<forall>e \<in> set [''latest'']. NewVersion masterminds e = None"
    by simp
  from n n' have a': "\<forall>e \<in> set [''latest'', ''>=0.5.0'']. NewVersion masterminds e = None"
    by simp
  from isVersionVulnerable_range_against_opaque [OF w c a] d
  have 1: "\<not> isVersionVulnerable masterminds ''^4.1.0'' [''latest'']"
    by simp
  from isVersionVulnerable_range_against_opaque [OF w' c' a'] star
  have 2: "\<not> isVersionVulnerable masterminds ''* '' [''latest'', ''>=0.5.0'']"
    by simp
  from w c n 1 w' c' n' 2 show ?thesis by simp
qed

text \<open>
  The claim C7 as worded fails: \<open>1.0.0\<close> followed by a space contains a space and parses
  as a constraint, and the entry \<open>>=0.5.0\<close> does not parse as an exact version and is
  another string; but the detector trims the space, the installed string is then read as
  the exact version 1.0.0, and that version satisfies the entry read as a constraint.
\<close>

theorem isVersionVulnerable_range_against_opaque_counterexample:
  "rangeSpecifierAsWorded ''1.0.0 ''
   \<and> NewConstraint masterminds ''1.0.0 '' \<noteq> None
   \<and> NewVersion masterminds ''>=0.5.0'' = None
   \<and> ''1.0.0 '' \<noteq> ''>=0.5.0''
   \<and> isVersionVulnerable masterminds ''1.0.0 '' [''>=0.5.0'']"
  by code_simp

text \<open>
  An entry that parses neither as a constraint nor as a version matches by string
  equality only, whatever the installed string is.
\<close>

lemma isVersionVulnerable_opaque_entries:
  assumes "\<forall>e \<in> set vulnerableVersions. NewConstraint L e = None \<and> NewVersion L e = None"
  shows "isVersionVulnerable L installedVersion vulnerableVersions =
    (installedVersion \<in> set vulnerableVersions)"
proof -
  from assms have "\<not> list_ex (constraintMatch L c) vulnerableVersions" for c
    by (auto simp: list_ex_iff constraintMatch_def)
  moreover from assms have "\<not> list_ex (versionMatch L v) vulnerableVersions" for v
    by (auto simp: list_ex_iff versionMatch_def exactMatch_def)
  moreover from assms have "\<not> list_ex (exactMatch L v) vulnerableVersions" for v
    by (auto simp: list_ex_iff exactMatch_def)
  ultimately show ?thesis
    by (auto simp: isVersionVulnerable_def list_ex_iff split: option.splits)
qed

text \<open>
  The prerelease rule is never reached for an entry that parses as a constraint: the
  loop goes on to the next entry after the check of the constraint.
\<close>

lemma versionMatch_constraint_first:
  "NewConstraint L vulnVersion = Some constraint
     \<Longrightarrow> versionMatch L installedVer vulnVersion = Check L constraint installedVer"
  by (simp add: versionMatch_def)

lemma isVersionVulnerable_plain_installed:
  assumes "\<not> isConstraintNotVersion installedVersion"
    and "NewVersion L (cleanVersionString installedVersion) = Some installedVer"
    and "NewConstraint L vulnVersion = Some constraint"
  shows "isVersionVulnerable L installedVersion [vulnVersion] =
    (installedVersion = vulnVersion \<or> Check L constraint installedVer)"
  using assms by (simp add: isVersionVulnerable_def versionMatch_def)

text \<open>
  C3: the three cases of the prerelease policy, evaluated. The first two answers are
  false, as the claim says. The third is false as well, where the claim says true: the
  entry \<open>4.1.1\<close> parses as a constraint, the prerelease \<open>4.1.1-rc.0\<close> does not satisfy it,
  and the comparison of the cores is not reached.
\<close>

theorem isVersionVulnerable_prerelease_cases:
  "isVersionVulnerable masterminds ''4.1.2-alpha.1'' [''4.1.1''] = False
   \<and> isVersionVulnerable masterminds ''4.1.1'' [''4.1.1-beta.1''] = False
   \<and> isVersionVulnerable masterminds ''4.1.1-rc.0'' [''4.1.1''] = False"
  by code_simp

section \<open>Properties of the vulnerability index\<close>

lemma buildVulnerablePackageMap_snoc:
  "buildVulnerablePackageMap (xs @ [p]) = (buildVulnerablePackageMap xs)(Name p \<mapsto> p)"
  by (simp add: buildVulnerablePackageMap_def)

lemma buildVulnerablePackageMap_last_wins:
  "Name p \<notin> Name ` set ys \<Longrightarrow> buildVulnerablePackageMap (xs @ p # ys) (Name p) = Some p"
proof (induction ys rule: rev_induct)
  case Nil
  show ?case by (simp add: buildVulnerablePackageMap_snoc)
next
  case (snoc y ys)
  have "buildVulnerablePackageMap (xs @ p # ys @ [y]) =
      (buildVulnerablePackageMap (xs @ p # ys))(Name y \<mapsto> y)"
    using buildVulnerablePackageMap_snoc [of "xs @ p # ys" y] by simp
  with snoc show ?case by auto
qed

lemma isVulnerable_iff:
  "fst (isVulnerable L vpm name version) \<longleftrightarrow>
     (\<exists>entry. vpm name = Some entry \<and> isVersionVulnerable L version (Versions entry))"
  by (simp add: isVulnerable_def split: option.splits)

lemma isVulnerable_True:
  "isVulnerable L vpm name version = (True, entry) \<longleftrightarrow>
     (vpm name = Some entry \<and> isVersionVulnerable L version (Versions entry))"
  by (auto simp: isVulnerable_def split: option.splits)

text \<open>
  C9: when two entries of the input list have the same name, the index maps the name
  to the later one (the last entry with that name); a lookup answers true exactly when
  the name is a key of the index and the version is vulnerable for the entry stored
  under it.
\<close>

theorem buildVulnerablePackageMap_lookup:
  "(i < j \<and> j < length vs \<and> Name (vs ! i) = Name (vs ! j)
      \<and> (\<forall>k. j < k \<and> k < length vs \<longrightarrow> Name (vs ! k) \<noteq> Name (vs ! j))
      \<longrightarrow> buildVulnerablePackageMap vs (Name (vs ! i)) = Some (vs ! j))
   \<and> (fst (isVulnerable L (buildVulnerablePackageMap vs) name version) \<longleftrightarrow>
        (\<exists>entry. buildVulnerablePackageMap vs name = Some entry
           \<and> isVersionVulnerable L version (Versions entry)))"
proof (intro conjI impI)
  assume a: "i < j \<and> j < length vs \<and> Name (vs ! i) = Name (vs ! j)
      \<and> (\<forall>k. j < k \<and> k < length vs \<longrightarrow> Name (vs ! k) \<noteq> Name (vs ! j))"
  then have split: "vs = take j vs @ vs ! j # drop (Suc j) vs"
    by (simp add: id_take_nth_drop)
  have "Name (vs ! j) \<notin> Name ` set (drop (Suc j) vs)"
  proof
    assume "Name (vs ! j) \<in> Name ` set (drop (Suc j) vs)"
    then obtain q where q: "q \<in> set (drop (Suc j) vs)" "Name q = Name (vs ! j)"
      by auto
    then obtain m where m: "m < length (drop (Suc j) vs)" "drop (Suc j) vs ! m = q"
      by (auto simp: in_set_conv_nth)
    then have "Suc j + m < length vs" "vs ! (Suc j + m) = q"
      by simp_all
    with a q show False by auto
  qed
  from buildVulnerablePackageMap_last_wins [OF this, of "take j vs"] split a
  show "buildVulnerablePackageMap vs (Name (vs ! i)) = Some (vs ! j)"
    by simp
next
  show "fst (isVulnerable L (buildVulnerablePackageMap vs) name version) \<longleftrightarrow>
        (\<exists>entry. buildVulnerablePackageMap vs name = Some entry
           \<and> isVersionVulnerable L version (Versions entry))"
    by (rule isVulnerable_iff)
qed

theorem buildVulnerablePackageMap_lookup_witness:
  "buildVulnerablePackageMap
      [\<lparr>Name = ''lodash'', Versions = [''4.17.19'']\<rparr>,
       \<lparr>Name = ''lodash'', Versions = [''4.17.20'']\<rparr>] ''lodash''
     = Some \<lparr>Name = ''lodash'', Versions = [''4.17.20'']\<rparr>
   \<and> fst (isVulnerable masterminds
        (buildVulnerablePackageMap
           [\<lparr>Name = ''lodash'', Versions = [''4.17.19'']\<rparr>,
            \<lparr>Name = ''lodash'', Versions = [''4.17.20'']\<rparr>]) ''lodash'' ''4.17.20'')"
proof -
  define vs where "vs = [\<lparr>Name = ''lodash'', Versions = [''4.17.19'']\<rparr>,
       \<lparr>Name = ''lodash'', Versions = [''4.17.20'']\<rparr>]"
  have h: "0 < (1::nat) \<and> 1 < length vs \<and> Name (vs ! 0) = Name (vs ! 1)
      \<and> (\<forall>k. 1 < k \<and> k < length vs \<longrightarrow> Name (vs ! k) \<noteq> Name (vs ! 1))"
    by (simp add: vs_def)
  from buildVulnerablePackageMap_lookup [of 0 1 vs] h
  have m: "buildVulnerablePackageMap vs (Name (vs ! 0)) = Some (vs ! 1)"
    by blast
  then have m': "buildVulnerablePackageMap vs ''lodash''
      = Some \<lparr>Name = ''lodash'', Versions = [''4.17.20'']\<rparr>"
    by (simp add: vs_def)
  have "isVersionVulnerable masterminds ''4.17.20'' [''4.17.20'']"
    by (simp add: isVersionVulnerable_def)
  with m' buildVulnerablePackageMap_lookup [of 0 1 vs masterminds "''lodash''" "''4.17.20''"]
  have "fst (isVulnerable masterminds (buildVulnerablePackageMap vs) ''lodash'' ''4.17.20'')"
    by simp
  with m' show ?thesis by (simp add: vs_def)
qed

section \<open>Properties of the lockfile scanner\<close>

lemma TrimPrefix_cases: "TrimPrefix k p = x \<Longrightarrow> k = x \<or> k = p @ x"
  by (auto simp: TrimPrefix_def HasPrefix_def prefix_def split: if_splits)

lemma buildVulnerablePackageMap_single:
  "buildVulnerablePackageMap [p] n = (if n = Name p then Some p else None)"
  by (simp add: buildVulnerablePackageMap_def)

lemma concat_map_single:
  assumes "\<forall>x \<in> set xs. f x = []" and "\<forall>y \<in> set ys. f y = []"
  shows "concat (map f (xs @ e # ys)) = f e"
proof -
  have nil: "concat (map f zs) = []" if "\<forall>z \<in> set zs. f z = []" for zs
    using that by (induction zs) auto
  show ?thesis
    by (simp only: map_append list.map concat_append concat.simps nil [OF assms(1)]
        nil [OF assms(2)] append_Nil append_Nil2)
qed

lemma tinycolor_key:
  "TrimPrefix ''node_modules/@ctrl/tinycolor'' ''node_modules/'' = ''@ctrl/tinycolor''
   \<and> \<not> Contains ''@ctrl/tinycolor'' ''/node_modules/''"
  by code_simp

lemma scanPackageLockPackagesOptimized_skip:
  "scanPackageLockPackagesOptimized L packages vpm filename =
     scanPackageLockPackagesOptimized L
       (filter (\<lambda>(k, i). \<not> (TrimPrefix k ''node_modules/'' = []
                  \<or> Contains (TrimPrefix k ''node_modules/'') ''/node_modules/'')) packages)
       vpm filename"
  unfolding scanPackageLockPackagesOptimized_def
  by (induction packages) (auto simp: Let_def)

text \<open>
  C6, as the code has it: with \<open>lockfileVersion\<close> 3, a packages map that has the key
  \<open>node_modules/@ctrl/tinycolor\<close> with version 4.1.1 and a resolved URL that yields no
  version or yields 4.1.1, and that has no key that is the bare name \<open>@ctrl/tinycolor\<close>,
  and the vulnerable entry \<open>@ctrl/tinycolor\<close> with versions \<open>[4.1.1]\<close>, the scanner
  returns exactly one finding, whatever else the map holds. For every index, the root
  entry and the entries whose key still contains \<open>/node_modules/\<close> after the leading
  prefix is removed contribute nothing: the findings are those of the map without them.
\<close>

theorem scanPackageLockJSONOptimized_tinycolor:
  "(distinct (map fst packages)
      \<and> (''node_modules/@ctrl/tinycolor'', info) \<in> set packages
      \<and> PackageLockPackageInfo_Version info = ''4.1.1''
      \<and> (extractVersionFromResolved (PackageLockPackageInfo_Resolved info) = []
          \<or> extractVersionFromResolved (PackageLockPackageInfo_Resolved info) = ''4.1.1'')
      \<and> ''@ctrl/tinycolor'' \<notin> fst ` set packages
    \<longrightarrow> scanPackageLockJSONOptimized L path
          (Bytes (Decoded \<lparr>PackageLockJSON_LockfileVersion = 3,
             PackageLockJSON_Packages = packages, PackageLockJSON_Dependencies = deps\<rparr>))
          (buildVulnerablePackageMap [\<lparr>Name = ''@ctrl/tinycolor'', Versions = [''4.1.1'']\<rparr>])
        = Inr [''Found vulnerable package @ctrl/tinycolor with version 4.1.1 in '' @ Base path])
   \<and> scanPackageLockPackagesOptimized L packages vpm filename =
       scanPackageLockPackagesOptimized L
         (filter (\<lambda>(k, i). \<not> (TrimPrefix k ''node_modules/'' = []
                    \<or> Contains (TrimPrefix k ''node_modules/'') ''/node_modules/'')) packages)
         vpm filename"
proof (intro conjI impI)
  define vpm0 where
    "vpm0 = buildVulnerablePackageMap [\<lparr>Name = ''@ctrl/tinycolor'', Versions = [''4.1.1'']\<rparr>]"
  define f :: "string \<times> PackageLockPackageInfo \<Rightarrow> string list" where "f = (\<lambda>(pkgPath, pkgInfo).
        let pkgName = TrimPrefix pkgPath ''node_modules/'' in
        if pkgName = [] \<or> Contains pkgName ''/node_modules/'' then []
        else
          let actualVersion = getActualVersion (PackageLockPackageInfo_Version pkgInfo)
                                (PackageLockPackageInfo_Resolved pkgInfo) in
          (case isVulnerable L vpm0 pkgName actualVersion of
             (True, vulnerablePackage) \<Rightarrow>
               [formatVulnerabilityMessage pkgName actualVersion (Base path) vulnerablePackage]
           | (False, _) \<Rightarrow> []))"
  assume a: "distinct (map fst packages)
      \<and> (''node_modules/@ctrl/tinycolor'', info) \<in> set packages
      \<and> PackageLockPackageInfo_Version info = ''4.1.1''
      \<and> (extractVersionFromResolved (PackageLockPackageInfo_Resolved info) = []
          \<or> extractVersionFromResolved (PackageLockPackageInfo_Resolved info) = ''4.1.1'')
      \<and> ''@ctrl/tinycolor'' \<notin> fst ` set packages"
  then obtain xs ys where
    split: "packages = xs @ (''node_modules/@ctrl/tinycolor'', info) # ys"
    by (meson split_list)
  have other: "f (k, i) = []"
    if "(k, i) \<in> set packages" and "k \<noteq> ''node_modules/@ctrl/tinycolor''" for k i
  proof -
    from that a have "k \<noteq> ''@ctrl/tinycolor''"
      by force
    with that(2) TrimPrefix_cases [of k "''node_modules/''" "''@ctrl/tinycolor''"]
    have "TrimPrefix k ''node_modules/'' \<noteq> ''@ctrl/tinycolor''"
      by auto
    then have "vpm0 (TrimPrefix k ''node_modules/'') = None"
      by (simp add: vpm0_def buildVulnerablePackageMap_single)
    then show ?thesis
      by (simp add: f_def Let_def isVulnerable_def)
  qed
  from a split have "''node_modules/@ctrl/tinycolor'' \<notin> fst ` set xs"
    and "''node_modules/@ctrl/tinycolor'' \<notin> fst ` set ys"
    by auto
  then have "\<forall>x \<in> set xs. fst x \<noteq> ''node_modules/@ctrl/tinycolor''"
    and "\<forall>y \<in> set ys. fst y \<noteq> ''node_modules/@ctrl/tinycolor''"
    by force+
  with other split have "\<forall>x \<in> set xs. f x = []" and "\<forall>y \<in> set ys. f y = []"
    by auto
  then have one: "concat (map f packages) = f (''node_modules/@ctrl/tinycolor'', info)"
    unfolding split by (rule concat_map_single)
  from a have "getActualVersion (PackageLockPackageInfo_Version info)
      (PackageLockPackageInfo_Resolved info) = ''4.1.1''"
    by (auto simp: getActualVersion_def Let_def)
  moreover have "isVulnerable L vpm0 ''@ctrl/tinycolor'' ''4.1.1''
      = (True, \<lparr>Name = ''@ctrl/tinycolor'', Versions = [''4.1.1'']\<rparr>)"
    by (simp add: isVulnerable_def vpm0_def buildVulnerablePackageMap_single
        isVersionVulnerable_def)
  ultimately have "f (''node_modules/@ctrl/tinycolor'', info) =
      [''Found vulnerable package @ctrl/tinycolor with version 4.1.1 in '' @ Base path]"
    using tinycolor_key by (simp add: f_def Let_def formatVulnerabilityMessage_def)
  with one have "scanPackageLockPackagesOptimized L packages vpm0 (Base path) =
      [''Found vulnerable package @ctrl/tinycolor with version 4.1.1 in '' @ Base path]"
    by (simp add: scanPackageLockPackagesOptimized_def f_def)
  moreover from split have "0 < length packages"
    by simp
  ultimately show "scanPackageLockJSONOptimized L path
          (Bytes (Decoded \<lparr>PackageLockJSON_LockfileVersion = 3,
             PackageLockJSON_Packages = packages, PackageLockJSON_Dependencies = deps\<rparr>))
          (buildVulnerablePackageMap [\<lparr>Name = ''@ctrl/tinycolor'', Versions = [''4.1.1'']\<rparr>])
        = Inr [''Found vulnerable package @ctrl/tinycolor with version 4.1.1 in '' @ Base path]"
    by (simp add: scanPackageLockJSONOptimized_def vpm0_def)
next
  show "scanPackageLockPackagesOptimized L packages vpm filename =
       scanPackageLockPackagesOptimized L
         (filter (\<lambda>(k, i). \<not> (TrimPrefix k ''node_modules/'' = []
                    \<or> Contains (TrimPrefix k ''node_modules/'') ''/node_modules/'')) packages)
         vpm filename"
    by (rule scanPackageLockPackagesOptimized_skip)
qed

theorem scanPackageLockJSONOptimized_tinycolor_witness:
  "scanPackageLockJSONOptimized masterminds ''package-lock.json''
     (Bytes (Decoded \<lparr>PackageLockJSON_LockfileVersion = 3,
        PackageLockJSON_Packages =
          [([], \<lparr>PackageLockPackageInfo_Version = ''1.0.0'',
                 PackageLockPackageInfo_Resolved = [],
                 PackageLockPackageInfo_Dependencies = []\<rparr>),
           (''node_modules/@ctrl/tinycolor'',
              \<lparr>PackageLockPackageInfo_Version = ''4.1.1'',
                PackageLockPackageInfo_Resolved =
                  ''https://registry.example.org/@ctrl/tinycolor/-/tinycolor-4.1.1.tgz'',
                PackageLockPackageInfo_Dependencies = []\<rparr>),
           (''node_modules/foo/node_modules/@ctrl/tinycolor'',
              \<lparr>PackageLockPackageInfo_Version = ''4.1.1'',
                PackageLockPackageInfo_Resolved = [],
                PackageLockPackageInfo_Dependencies = []\<rparr>)],
        PackageLockJSON_Dependencies = []\<rparr>))
     (buildVulnerablePackageMap [\<lparr>Name = ''@ctrl/tinycolor'', Versions = [''4.1.1'']\<rparr>])
   = Inr [''Found vulnerable package @ctrl/tinycolor with version 4.1.1 in package-lock.json'']
   \<and> scanPackageLockJSONOptimized masterminds ''package-lock.json''
     (Bytes (Decoded \<lparr>PackageLockJSON_LockfileVersion = 3,
        PackageLockJSON_Packages =
          [(''node_modules/@ctrl/tinycolor'',
              \<lparr>PackageLockPackageInfo_Version = ''4.1.1'',
                PackageLockPackageInfo_Resolved = [],
                PackageLockPackageInfo_Dependencies = []\<rparr>)],
        PackageLockJSON_Dependencies = []\<rparr>))
     (buildVulnerablePackageMap [\<lparr>Name = ''@ctrl/tinycolor'', Versions = [''4.1.1'']\<rparr>])
   = Inr [''Found vulnerable package @ctrl/tinycolor with version 4.1.1 in package-lock.json'']"
proof -
  define info where "info = \<lparr>PackageLockPackageInfo_Version = ''4.1.1'',
                PackageLockPackageInfo_Resolved =
                  ''https://registry.example.org/@ctrl/tinycolor/-/tinycolor-4.1.1.tgz'',
                PackageLockPackageInfo_Dependencies = ([] :: string gomap)\<rparr>"
  define bare where "bare = \<lparr>PackageLockPackageInfo_Version = ''4.1.1'',
                PackageLockPackageInfo_Resolved = [],
                PackageLockPackageInfo_Dependencies = ([] :: string gomap)\<rparr>"
  define packages where "packages =
          [([], \<lparr>PackageLockPackageInfo_Version = ''1.0.0'',
                 PackageLockPackageInfo_Resolved = [],
                 PackageLockPackageInfo_Dependencies = []\<rparr>),
           (''node_modules/@ctrl/tinycolor'', info),
           (''node_modules/foo/node_modules/@ctrl/tinycolor'', bare)]"
  have h: "distinct (map fst packages)
      \<and> (''node_modules/@ctrl/tinycolor'', info) \<in> set packages
      \<and> PackageLockPackageInfo_Version info = ''4.1.1''
      \<and> (extractVersionFromResolved (PackageLockPackageInfo_Resolved info) = []
          \<or> extractVersionFromResolved (PackageLockPackageInfo_Resolved info) = ''4.1.1'')
      \<and> ''@ctrl/tinycolor'' \<notin> fst ` set packages"
    by (simp add: packages_def info_def extractVersionFromResolved_tinycolor)
  have h': "distinct (map fst [(''node_modules/@ctrl/tinycolor'', bare)])
      \<and> (''node_modules/@ctrl/tinycolor'', bare) \<in> set [(''node_modules/@ctrl/tinycolor'', bare)]
      \<and> PackageLockPackageInfo_Version bare = ''4.1.1''
      \<and> (extractVersionFromResolved (PackageLockPackageInfo_Resolved bare) = []
          \<or> extractVersionFromResolved (PackageLockPackageInfo_Resolved bare) = ''4.1.1'')
      \<and> ''@ctrl/tinycolor'' \<notin> fst ` set [(''node_modules/@ctrl/tinycolor'', bare)]"
    by (simp add: bare_def extractVersionFromResolved_def)
  have b: "Base ''package-lock.json'' = ''package-lock.json''"
    by code_simp
  from scanPackageLockJSONOptimized_tinycolor
    [of packages info masterminds "''package-lock.json''" "[]"] h
  have 1: "scanPackageLockJSONOptimized masterminds ''package-lock.json''
          (Bytes (Decoded \<lparr>PackageLockJSON_LockfileVersion = 3,
             PackageLockJSON_Packages = packages, PackageLockJSON_Dependencies = []\<rparr>))
          (buildVulnerablePackageMap [\<lparr>Name = ''@ctrl/tinycolor'', Versions = [''4.1.1'']\<rparr>])
        = Inr [''Found vulnerable package @ctrl/tinycolor with version 4.1.1 in ''
                 @ Base ''package-lock.json'']"
    by blast
  from scanPackageLockJSONOptimized_tinycolor
    [of "[(''node_modules/@ctrl/tinycolor'', bare)]" bare masterminds
      "''package-lock.json''" "[]"] h'
  have 2: "scanPackageLockJSONOptimized masterminds ''package-lock.json''
          (Bytes (Decoded \<lparr>PackageLockJSON_LockfileVersion = 3,
             PackageLockJSON_Packages = [(''node_modules/@ctrl/tinycolor'', bare)],
             PackageLockJSON_Dependencies = []\<rparr>))
          (buildVulnerablePackageMap [\<lparr>Name = ''@ctrl/tinycolor'', Versions = [''4.1.1'']\<rparr>])
        = Inr [''Found vulnerable package @ctrl/tinycolor with version 4.1.1 in ''
                 @ Base ''package-lock.json'']"
    by blast
  from 1 2 show ?thesis
    by (simp add: b packages_def info_def bare_def)
qed

text \<open>
  The claim C6 as worded fails in two ways. An entry with version 4.1.1 whose resolved
  URL names 4.1.2 is checked under 4.1.2, the version that \<open>getActualVersion\<close> prefers,
  and gives no finding. A second key that is the bare name \<open>@ctrl/tinycolor\<close> keeps its
  name when the prefix is removed, is read as the same package, and gives a second
  finding.
\<close>

theorem scanPackageLockJSONOptimized_tinycolor_counterexample:
  "scanPackageLockJSONOptimized masterminds ''package-lock.json''
     (Bytes (Decoded \<lparr>PackageLockJSON_LockfileVersion = 3,
        PackageLockJSON_Packages =
          [(''node_modules/@ctrl/tinycolor'',
              \<lparr>PackageLockPackageInfo_Version = ''4.1.1'',
                PackageLockPackageInfo_Resolved =
                  ''https://registry.example.org/@ctrl/tinycolor/-/tinycolor-4.1.2.tgz'',
                PackageLockPackageInfo_Dependencies = []\<rparr>)],
        PackageLockJSON_Dependencies = []\<rparr>))
     (buildVulnerablePackageMap [\<lparr>Name = ''@ctrl/tinycolor'', Versions = [''4.1.1'']\<rparr>])
   = Inr []
   \<and> scanPackageLockJSONOptimized masterminds ''package-lock.json''
     (Bytes (Decoded \<lparr>PackageLockJSON_LockfileVersion = 3,
        PackageLockJSON_Packages =
          [(''node_modules/@ctrl/tinycolor'',
              \<lparr>PackageLockPackageInfo_Version = ''4.1.1'',
                PackageLockPackageInfo_Resolved = [],
                PackageLockPackageInfo_Dependencies = []\<rparr>),
           (''@ctrl/tinycolor'',
              \<lparr>PackageLockPackageInfo_Version = ''4.1.1'',
                PackageLockPackageInfo_Resolved = [],
                PackageLockPackageInfo_Dependencies = []\<rparr>)],
        PackageLockJSON_Dependencies = []\<rparr>))
     (buildVulnerablePackageMap [\<lparr>Name = ''@ctrl/tinycolor'', Versions = [''4.1.1'']\<rparr>])
   = Inr [''Found vulnerable package @ctrl/tinycolor with version 4.1.1 in package-lock.json'',
          ''Found vulnerable package @ctrl/tinycolor with version 4.1.1 in package-lock.json'']"
  by code_simp

section \<open>Properties of the scan of an action\<close>

lemma scanBlock_accumulate:
  "r = scanBlock present scan [] \<Longrightarrow>
     scanBlock present scan found =
       (case r of Inl err \<Rightarrow> Inl err | Inr vs \<Rightarrow> Inr (found @ vs))"
  by (simp add: scanBlock_def split: option.splits sum.splits)

lemma ScanAction_runs:
  "ScanAction L actionDir files vs =
     (case scannerRuns L actionDir files vs ! 0 of
        Inl err \<Rightarrow> Inl err
      | Inr a \<Rightarrow>
     (case scannerRuns L actionDir files vs ! 1 of
        Inl err \<Rightarrow> Inl err
      | Inr b \<Rightarrow>
     (case scannerRuns L actionDir files vs ! 2 of
        Inl err \<Rightarrow> Inl err
      | Inr c \<Rightarrow>
     (case scannerRuns L actionDir files vs ! 3 of
        Inl err \<Rightarrow> Inl err
      | Inr d \<Rightarrow> Inr (a @ b @ c @ d)))))"
proof -
  define vpm where "vpm = buildVulnerablePackageMap vs"
  define r1 where "r1 = scanBlock (packageJSON files)
      (\<lambda>data. scanPackageJSONOptimized L (filepathJoin actionDir ''package.json'') data vpm) []"
  define r2 where "r2 = scanBlock (packageLockJSON files)
      (\<lambda>data. scanPackageLockJSONOptimized L (filepathJoin actionDir ''package-lock.json'')
         data vpm) []"
  define r3 where "r3 = scanBlock (yarnLock files)
      (\<lambda>data. scanYarnLockOptimized L (filepathJoin actionDir ''yarn.lock'') data vpm) []"
  define r4 where "r4 = scanBlock (pnpmLock files)
      (\<lambda>data. scanPnpmLockOptimized L (filepathJoin actionDir ''pnpm-lock.yaml'') data vpm) []"
  have runs: "scannerRuns L actionDir files vs = [r1, r2, r3, r4]"
    by (simp add: scannerRuns_def Let_def r1_def r2_def r3_def r4_def vpm_def)
  have nth: "[r1, r2, r3, r4] ! 0 = r1" "[r1, r2, r3, r4] ! 1 = r2" "[r1, r2, r3, r4] ! 2 = r3"
    "[r1, r2, r3, r4] ! 3 = r4"
    by (simp_all add: numeral_2_eq_2 numeral_3_eq_3)
  have "ScanAction L actionDir files vs =
     (case r1 of
        Inl err \<Rightarrow> Inl err
      | Inr a \<Rightarrow>
     (case r2 of
        Inl err \<Rightarrow> Inl err
      | Inr b \<Rightarrow>
     (case r3 of
        Inl err \<Rightarrow> Inl err
      | Inr c \<Rightarrow>
     (case r4 of
        Inl err \<Rightarrow> Inl err
      | Inr d \<Rightarrow> Inr (a @ b @ c @ d)))))"
    unfolding ScanAction_def Let_def vpm_def [symmetric] r1_def [symmetric]
      scanBlock_accumulate [OF r2_def] scanBlock_accumulate [OF r3_def]
      scanBlock_accumulate [OF r4_def]
    by (simp split: sum.splits)
  then show ?thesis
    by (simp only: runs nth)
qed

text \<open>
  C5, as the code has it: \<open>ScanAction\<close> stops at the first scanner that fails, in the
  order \<open>package.json\<close>, \<open>package-lock.json\<close>, \<open>yarn.lock\<close>, \<open>pnpm-lock.yaml\<close>, and returns
  its error without any findings: the scanners after it are not run and the findings of
  the scanners before it are dropped. When no scanner fails the findings of the four
  runs are returned, one after the other.
\<close>

theorem ScanAction_first_error:
  "(k < 4 \<and> scannerRuns L actionDir files vs ! k = Inl err
      \<and> (\<forall>i<k. \<exists>found. scannerRuns L actionDir files vs ! i = Inr found)
    \<longrightarrow> ScanAction L actionDir files vs = Inl err)
   \<and> ((\<forall>i<4. \<exists>found. scannerRuns L actionDir files vs ! i = Inr found)
    \<longrightarrow> ScanAction L actionDir files vs =
          Inr (concat (map projr (scannerRuns L actionDir files vs))))"
proof (intro conjI impI)
  assume a: "k < 4 \<and> scannerRuns L actionDir files vs ! k = Inl err
      \<and> (\<forall>i<k. \<exists>found. scannerRuns L actionDir files vs ! i = Inr found)"
  then consider "k = 0" | "k = 1" | "k = 2" | "k = 3"
    by arith
  then show "ScanAction L actionDir files vs = Inl err"
  proof cases
    case 1
    with a show ?thesis by (simp add: ScanAction_runs)
  next
    case 2
    with a obtain f0 where "scannerRuns L actionDir files vs ! 0 = Inr f0"
      by auto
    with a 2 show ?thesis by (simp add: ScanAction_runs)
  next
    case 3
    with a have "\<exists>found. scannerRuns L actionDir files vs ! 0 = Inr found"
      and "\<exists>found. scannerRuns L actionDir files vs ! 1 = Inr found"
      by simp_all
    then obtain f0 f1 where "scannerRuns L actionDir files vs ! 0 = Inr f0"
      "scannerRuns L actionDir files vs ! 1 = Inr f1"
      by auto
    with a 3 show ?thesis by (simp add: ScanAction_runs)
  next
    case 4
    with a have "\<exists>found. scannerRuns L actionDir files vs ! 0 = Inr found"
      and "\<exists>found. scannerRuns L actionDir files vs ! 1 = Inr found"
      and "\<exists>found. scannerRuns L actionDir files vs ! 2 = Inr found"
      by simp_all
    then obtain f0 f1 f2 where "scannerRuns L actionDir files vs ! 0 = Inr f0"
      "scannerRuns L actionDir files vs ! 1 = Inr f1"
      "scannerRuns L actionDir files vs ! 2 = Inr f2"
      by auto
    with a 4 show ?thesis by (simp add: ScanAction_runs)
  qed
next
  assume a: "\<forall>i<4. \<exists>found. scannerRuns L actionDir files vs ! i = Inr found"
  then have "\<exists>found. scannerRuns L actionDir files vs ! 0 = Inr found"
    and "\<exists>found. scannerRuns L actionDir files vs ! 1 = Inr found"
    and "\<exists>found. scannerRuns L actionDir files vs ! 2 = Inr found"
    and "\<exists>found. scannerRuns L actionDir files vs ! 3 = Inr found"
    by simp_all
  then obtain f0 f1 f2 f3 where f: "scannerRuns L actionDir files vs ! 0 = Inr f0"
    "scannerRuns L actionDir files vs ! 1 = Inr f1"
    "scannerRuns L actionDir files vs ! 2 = Inr f2"
    "scannerRuns L actionDir files vs ! 3 = Inr f3"
    by auto
  have "length (scannerRuns L actionDir files vs) = 4"
    by (simp add: scannerRuns_def Let_def)
  then obtain w x y z where l: "scannerRuns L actionDir files vs = [w, x, y, z]"
    by (auto simp: length_Suc_conv numeral_eq_Suc)
  with f have "scannerRuns L actionDir files vs = [Inr f0, Inr f1, Inr f2, Inr f3]"
    by (simp add: numeral_2_eq_2 numeral_3_eq_3)
  with f show "ScanAction L actionDir files vs =
      Inr (concat (map projr (scannerRuns L actionDir files vs)))"
    by (simp add: ScanAction_runs)
qed

text \<open>
  The claim C5 as worded fails: with a \<open>package.json\<close> that does not parse and a
  \<open>package-lock.json\<close> that holds a vulnerable package, the lockfile scanner run on its
  own reports the finding, but \<open>ScanAction\<close> returns the error of the first scanner and
  no finding.
\<close>

theorem ScanAction_siblings_counterexample:
  "scanPackageJSONOptimized masterminds ''action/package.json'' (Bytes Invalid)
     (buildVulnerablePackageMap [\<lparr>Name = ''@ctrl/tinycolor'', Versions = [''4.1.1'']\<rparr>])
     = Inl (UnmarshalFailed ''action/package.json'')
   \<and> scanPackageLockJSONOptimized masterminds ''action/package-lock.json''
       (Bytes (Decoded \<lparr>PackageLockJSON_LockfileVersion = 3,
          PackageLockJSON_Packages =
            [(''node_modules/@ctrl/tinycolor'',
                \<lparr>PackageLockPackageInfo_Version = ''4.1.1'',
                  PackageLockPackageInfo_Resolved = [],
                  PackageLockPackageInfo_Dependencies = []\<rparr>)],
          PackageLockJSON_Dependencies = []\<rparr>))
       (buildVulnerablePackageMap [\<lparr>Name = ''@ctrl/tinycolor'', Versions = [''4.1.1'']\<rparr>])
     = Inr [''Found vulnerable package @ctrl/tinycolor with version 4.1.1 in package-lock.json'']
   \<and> ScanAction masterminds ''action''
       (\<lparr>packageJSON = Some (Bytes Invalid),
         packageLockJSON = Some (Bytes (Decoded \<lparr>PackageLockJSON_LockfileVersion = 3,
            PackageLockJSON_Packages =
              [(''node_modules/@ctrl/tinycolor'',
                  \<lparr>PackageLockPackageInfo_Version = ''4.1.1'',
                    PackageLockPackageInfo_Resolved = [],
                    PackageLockPackageInfo_Dependencies = []\<rparr>)],
            PackageLockJSON_Dependencies = []\<rparr>)),
         yarnLock = None, pnpmLock = None\<rparr> :: unit ActionDir)
       [\<lparr>Name = ''@ctrl/tinycolor'', Versions = [''4.1.1'']\<rparr>]
     = Inl (UnmarshalFailed ''action/package.json'')"
  by code_simp

theorem ScanAction_first_error_witness:
  "ScanAction masterminds ''action''
       (\<lparr>packageJSON = Some (Bytes (Decoded \<lparr>PackageJSON_Dependencies =
            Some [(''@ctrl/tinycolor'', ''4.1.1'')], PackageJSON_DevDependencies = None,
            PackageJSON_PeerDependencies = None, PackageJSON_OptionalDependencies = None,
            PackageJSON_BundledDependencies = []\<rparr>)),
         packageLockJSON = Some Unreadable,
         yarnLock = Some (Bytes ''lodash@^4.17.20:''), pnpmLock = None\<rparr> :: unit ActionDir)
       [\<lparr>Name = ''@ctrl/tinycolor'', Versions = [''4.1.1'']\<rparr>]
     = Inl (ReadFailed ''action/package-lock.json'')
   \<and> ScanAction masterminds ''action''
       (\<lparr>packageJSON = Some (Bytes (Decoded \<lparr>PackageJSON_Dependencies =
            Some [(''@ctrl/tinycolor'', ''4.1.1'')], PackageJSON_DevDependencies = None,
            PackageJSON_PeerDependencies = None, PackageJSON_OptionalDependencies = None,
            PackageJSON_BundledDependencies = []\<rparr>)),
         packageLockJSON = None,
         yarnLock = Some (Bytes ''lodash@^4.17.20:''), pnpmLock = None\<rparr> :: unit ActionDir)
       [\<lparr>Name = ''@ctrl/tinycolor'', Versions = [''4.1.1'']\<rparr>]
     = Inr [''Found vulnerable package @ctrl/tinycolor with version 4.1.1 in package.json (dependencies)'']"
proof -
  define pj where "pj = Some (Bytes (Decoded \<lparr>PackageJSON_Dependencies =
            Some [(''@ctrl/tinycolor'', ''4.1.1'')], PackageJSON_DevDependencies = None,
            PackageJSON_PeerDependencies = None, PackageJSON_OptionalDependencies = None,
            PackageJSON_BundledDependencies = []\<rparr>))"
  define bad :: "unit ActionDir" where "bad = \<lparr>packageJSON = pj,
         packageLockJSON = Some Unreadable,
         yarnLock = Some (Bytes ''lodash@^4.17.20:''), pnpmLock = None\<rparr>"
  define good :: "unit ActionDir" where "good = \<lparr>packageJSON = pj,
         packageLockJSON = None,
         yarnLock = Some (Bytes ''lodash@^4.17.20:''), pnpmLock = None\<rparr>"
  define vs where "vs = [\<lparr>Name = ''@ctrl/tinycolor'', Versions = [''4.1.1'']\<rparr>]"
  have rb: "scannerRuns masterminds ''action'' bad vs =
      [Inr [''Found vulnerable package @ctrl/tinycolor with version 4.1.1 in package.json (dependencies)''],
       Inl (ReadFailed ''action/package-lock.json''), Inr [], Inr []]"
    unfolding bad_def pj_def vs_def by code_simp
  have rg: "scannerRuns masterminds ''action'' good vs =
      [Inr [''Found vulnerable package @ctrl/tinycolor with version 4.1.1 in package.json (dependencies)''],
       Inr [], Inr [], Inr []]"
    unfolding good_def pj_def vs_def by code_simp
  have hb: "(1::nat) < 4 \<and> scannerRuns masterminds ''action'' bad vs ! 1
        = Inl (ReadFailed ''action/package-lock.json'')
      \<and> (\<forall>i<1. \<exists>found. scannerRuns masterminds ''action'' bad vs ! i = Inr found)"
    by (simp add: rb)
  have hg: "\<forall>i<4. \<exists>found. scannerRuns masterminds ''action'' good vs ! i = Inr found"
    by (simp add: rg less_Suc_eq numeral_eq_Suc)
  from ScanAction_first_error [of 1 masterminds "''action''" bad vs
      "ReadFailed ''action/package-lock.json''"] hb
  have b: "ScanAction masterminds ''action'' bad vs = Inl (ReadFailed ''action/package-lock.json'')"
    by blast
  from ScanAction_first_error [of 1 masterminds "''action''" good vs] hg
  have "ScanAction masterminds ''action'' good vs =
      Inr (concat (map projr (scannerRuns masterminds ''action'' good vs)))"
    by blast
  then have g: "ScanAction masterminds ''action'' good vs =
      Inr [''Found vulnerable package @ctrl/tinycolor with version 4.1.1 in package.json (dependencies)'']"
    by (simp add: rg)
  from b g show ?thesis
    by (simp add: bad_def good_def pj_def vs_def)
qed

section \<open>Two runs on the same file\<close>

lemma mset_concat_map_cong:
  assumes "mset xs = mset ys"
  shows "mset (concat (map f xs)) = mset (concat (map f ys))"
proof -
  have "mset (concat (map f zs)) = sum_mset (image_mset (\<lambda>z. mset (f z)) (mset zs))" for zs
    by (induction zs) simp_all
  with assms show ?thesis by simp
qed

lemma scanVersionMap_sameMap:
  "sameMap m1 m2 \<Longrightarrow> mset (scanVersionMap L vpm message m1) = mset (scanVersionMap L vpm message m2)"
  unfolding scanVersionMap_def sameMap_def by (rule mset_concat_map_cong)

lemma scanDependencyTypes_same:
  assumes "list_all2 (\<lambda>x y. rel_option sameMap (fst x) (fst y) \<and> snd x = snd y) ts1 ts2"
    and "\<And>name m1 m2. sameMap m1 m2 \<Longrightarrow> mset (scan name m1) = mset (scan name m2)"
  shows "mset (scanDependencyTypes ts1 scan) = mset (scanDependencyTypes ts2 scan)"
  using assms(1)
proof (induction rule: list_all2_induct)
  case Nil
  show ?case by (simp add: scanDependencyTypes_def)
next
  case (Cons x xs y ys)
  obtain d1 n1 d2 n2 where x: "x = (d1, n1)" and y: "y = (d2, n2)"
    by (cases x, cases y) auto
  from Cons.hyps x y have "rel_option sameMap d1 d2" and "n1 = n2"
    by simp_all
  then have "mset (case d1 of None \<Rightarrow> [] | Some m \<Rightarrow> scan n1 m)
      = mset (case d2 of None \<Rightarrow> [] | Some m \<Rightarrow> scan n2 m)"
    by (cases d1; cases d2) (simp_all add: assms(2))
  with Cons.IH x y show ?case
    by (simp add: scanDependencyTypes_def)
qed

lemma scanPackageLockDependenciesOptimized_concat:
  "scanPackageLockDependenciesOptimized L ds vpm filename =
     concat (map (\<lambda>(n, i). scanPackageLockEntry L n i vpm filename) ds)"
  by (induction ds) auto

lemma scanPackageLockEntry_unfold:
  "scanPackageLockEntry L n (PackageLockInfo v ds) vpm filename =
     (case isVulnerable L vpm n v of
        (True, vulnerablePackage) \<Rightarrow> [formatVulnerabilityMessage n v filename vulnerablePackage]
      | (False, _) \<Rightarrow> [])
     @ scanPackageLockDependenciesOptimized L ds vpm filename"
  by (cases ds) simp_all

lemma scanPackageLockDependenciesOptimized_pointwise:
  assumes "list_all2 (\<lambda>x y. fst x = fst y
      \<and> (\<forall>n. mset (scanPackageLockEntry L n (snd x) vpm filename)
             = mset (scanPackageLockEntry L n (snd y) vpm filename))) ds ds'"
  shows "mset (scanPackageLockDependenciesOptimized L ds vpm filename)
    = mset (scanPackageLockDependenciesOptimized L ds' vpm filename)"
  using assms
proof (induction rule: list_all2_induct)
  case Nil
  show ?case by simp
next
  case (Cons x xs y ys)
  obtain n i n' i' where x: "x = (n, i)" and y: "y = (n', i')"
    by (cases x, cases y) auto
  with Cons.hyps have "n = n'"
    and "mset (scanPackageLockEntry L n i vpm filename)
      = mset (scanPackageLockEntry L n i' vpm filename)"
    by simp_all
  with Cons.IH x y show ?case by simp
qed

lemma sameTree_scanPackageLockEntry:
  "sameTree t t' \<Longrightarrow>
     mset (scanPackageLockEntry L n t vpm filename) = mset (scanPackageLockEntry L n t' vpm filename)"
proof (induction arbitrary: n rule: sameTree.induct)
  case (sameTreeI ds ds' ds'' v)
  from sameTreeI.IH
  have "list_all2 (\<lambda>x y. fst x = fst y
      \<and> (\<forall>n. mset (scanPackageLockEntry L n (snd x) vpm filename)
             = mset (scanPackageLockEntry L n (snd y) vpm filename))) ds ds'"
    by (rule list_all2_mono) simp
  then have "mset (scanPackageLockDependenciesOptimized L ds vpm filename)
      = mset (scanPackageLockDependenciesOptimized L ds' vpm filename)"
    by (rule scanPackageLockDependenciesOptimized_pointwise)
  also from sameTreeI.hyps
  have "\<dots> = mset (scanPackageLockDependenciesOptimized L ds'' vpm filename)"
    unfolding scanPackageLockDependenciesOptimized_concat by (rule mset_concat_map_cong)
  finally show ?case
    unfolding scanPackageLockEntry_unfold by simp
qed

lemma scanPackageJSONOptimized_same:
  assumes "samePackageJSON a b"
  shows "map_sum id mset (scanPackageJSONOptimized L path (Bytes (Decoded a)) vpm) =
    map_sum id mset (scanPackageJSONOptimized L path (Bytes (Decoded b)) vpm)"
proof -
  let ?scan = "\<lambda>name. scanVersionMap L vpm
      (\<lambda>pkgName version vulnerablePackage.
         formatVulnerabilityMessage pkgName version (Base path) vulnerablePackage
           @ '' ('' @ name @ '')'')"
  have "mset (scanDependencyTypes
        [(PackageJSON_Dependencies a, ''dependencies''),
         (PackageJSON_DevDependencies a, ''devDependencies''),
         (PackageJSON_PeerDependencies a, ''peerDependencies''),
         (PackageJSON_OptionalDependencies a, ''optionalDependencies'')] ?scan)
      = mset (scanDependencyTypes
        [(PackageJSON_Dependencies b, ''dependencies''),
         (PackageJSON_DevDependencies b, ''devDependencies''),
         (PackageJSON_PeerDependencies b, ''peerDependencies''),
         (PackageJSON_OptionalDependencies b, ''optionalDependencies'')] ?scan)"
  proof (rule scanDependencyTypes_same)
    show "list_all2 (\<lambda>x y. rel_option sameMap (fst x) (fst y) \<and> snd x = snd y)
        [(PackageJSON_Dependencies a, ''dependencies''),
         (PackageJSON_DevDependencies a, ''devDependencies''),
         (PackageJSON_PeerDependencies a, ''peerDependencies''),
         (PackageJSON_OptionalDependencies a, ''optionalDependencies'')]
        [(PackageJSON_Dependencies b, ''dependencies''),
         (PackageJSON_DevDependencies b, ''devDependencies''),
         (PackageJSON_PeerDependencies b, ''peerDependencies''),
         (PackageJSON_OptionalDependencies b, ''optionalDependencies'')]"
      using assms by (simp add: samePackageJSON_def)
  next
    show "mset (?scan name m1) = mset (?scan name m2)" if "sameMap m1 m2" for name m1 m2
      using that by (rule scanVersionMap_sameMap)
  qed
  moreover from assms
  have "PackageJSON_BundledDependencies a = PackageJSON_BundledDependencies b"
    by (simp add: samePackageJSON_def)
  ultimately show ?thesis
    by (simp add: scanPackageJSONOptimized_def)
qed

lemma scanPackageLockJSONOptimized_same:
  assumes "samePackageLockJSON a b"
  shows "map_sum id mset (scanPackageLockJSONOptimized L path (Bytes (Decoded a)) vpm) =
    map_sum id mset (scanPackageLockJSONOptimized L path (Bytes (Decoded b)) vpm)"
proof -
  from assms have v: "PackageLockJSON_LockfileVersion a = PackageLockJSON_LockfileVersion b"
    and p: "mset (PackageLockJSON_Packages a) = mset (PackageLockJSON_Packages b)"
    and t: "sameTree (PackageLockInfo [] (PackageLockJSON_Dependencies a))
            (PackageLockInfo [] (PackageLockJSON_Dependencies b))"
    by (simp_all add: samePackageLockJSON_def sameMap_def)
  from p have len: "length (PackageLockJSON_Packages a) = length (PackageLockJSON_Packages b)"
    by (rule mset_eq_length)
  from p have packages:
    "mset (scanPackageLockPackagesOptimized L (PackageLockJSON_Packages a) vpm (Base path))
      = mset (scanPackageLockPackagesOptimized L (PackageLockJSON_Packages b) vpm (Base path))"
    unfolding scanPackageLockPackagesOptimized_def by (rule mset_concat_map_cong)
  from sameTree_scanPackageLockEntry [OF t, of L "[]" vpm "Base path"]
  have deps:
    "mset (scanPackageLockDependenciesOptimized L (PackageLockJSON_Dependencies a) vpm (Base path))
      = mset (scanPackageLockDependenciesOptimized L (PackageLockJSON_Dependencies b) vpm
          (Base path))"
    unfolding scanPackageLockEntry_unfold by simp
  show ?thesis
  proof (cases "2 \<le> PackageLockJSON_LockfileVersion b
      \<and> 0 < length (PackageLockJSON_Packages b)")
    case True
    with v len have "2 \<le> PackageLockJSON_LockfileVersion a
        \<and> 0 < length (PackageLockJSON_Packages a)"
      by simp
    with True packages show ?thesis
      unfolding scanPackageLockJSONOptimized_def by simp
  next
    case False
    with v len have nota: "\<not> (2 \<le> PackageLockJSON_LockfileVersion a
        \<and> 0 < length (PackageLockJSON_Packages a))"
      by simp
    from nota have "scanPackageLockJSONOptimized L path (Bytes (Decoded a)) vpm =
        Inr (scanPackageLockDependenciesOptimized L (PackageLockJSON_Dependencies a) vpm
          (Base path))"
      unfolding scanPackageLockJSONOptimized_def
      by (cases "PackageLockJSON_Dependencies a") auto
    moreover from False have "scanPackageLockJSONOptimized L path (Bytes (Decoded b)) vpm =
        Inr (scanPackageLockDependenciesOptimized L (PackageLockJSON_Dependencies b) vpm
          (Base path))"
      unfolding scanPackageLockJSONOptimized_def
      by (cases "PackageLockJSON_Dependencies b") auto
    ultimately show ?thesis
      using deps by simp
  qed
qed

lemma scanPnpmLockOptimized_same:
  assumes "samePnpmLock a b"
  shows "map_sum id mset (scanPnpmLockOptimized L path (Bytes (Decoded a)) vpm) =
    map_sum id mset (scanPnpmLockOptimized L path (Bytes (Decoded b)) vpm)"
proof -
  let ?scan = "\<lambda>name :: string. scanVersionMap L vpm
      (\<lambda>pkgName version vulnerablePackage.
         formatVulnerabilityMessage pkgName version (Base path) vulnerablePackage)"
  from assms have p: "mset (PnpmLock_Packages a) = mset (PnpmLock_Packages b)"
    by (simp add: samePnpmLock_def sameMap_def)
  then have packages: "mset (scanPnpmPackages L vpm path (PnpmLock_Packages a))
      = mset (scanPnpmPackages L vpm path (PnpmLock_Packages b))"
    unfolding scanPnpmPackages_def by (rule mset_concat_map_cong)
  have nil: "(if 0 < length ps then scanPnpmPackages L vpm path ps else [])
      = scanPnpmPackages L vpm path ps" for ps :: "'a PnpmPackageInfo gomap"
    by (cases ps) (simp_all add: scanPnpmPackages_def)
  have "mset (scanDependencyTypes
        [(PnpmLock_Dependencies a, ''dependencies''),
         (PnpmLock_DevDependencies a, ''devDependencies'')] ?scan)
      = mset (scanDependencyTypes
        [(PnpmLock_Dependencies b, ''dependencies''),
         (PnpmLock_DevDependencies b, ''devDependencies'')] ?scan)"
  proof (rule scanDependencyTypes_same)
    show "list_all2 (\<lambda>x y. rel_option sameMap (fst x) (fst y) \<and> snd x = snd y)
        [(PnpmLock_Dependencies a, ''dependencies''),
         (PnpmLock_DevDependencies a, ''devDependencies'')]
        [(PnpmLock_Dependencies b, ''dependencies''),
         (PnpmLock_DevDependencies b, ''devDependencies'')]"
      using assms by (simp add: samePnpmLock_def)
  next
    show "mset (?scan name m1) = mset (?scan name m2)" if "sameMap m1 m2" for name m1 m2
      using that by (rule scanVersionMap_sameMap)
  qed
  with packages show ?thesis
    unfolding scanPnpmLockOptimized_def
    by (simp add: nil del: length_greater_0_conv)
qed

text \<open>
  C8, as the code has it: two runs of a scanner on the same file with the same
  vulnerable packages give the same findings up to their order. Within one run the
  findings that come from one Go map follow the order in which the \<open>range\<close> loop visits
  the map, which differs from run to run. The scanner of \<open>yarn.lock\<close> ranges over no
  map: its findings are a function of the content of the file.
\<close>

theorem scanners_same_findings_up_to_order:
  "(samePackageJSON a b \<longrightarrow>
      map_sum id mset (scanPackageJSONOptimized L path (Bytes (Decoded a)) vpm) =
      map_sum id mset (scanPackageJSONOptimized L path (Bytes (Decoded b)) vpm))
   \<and> (samePackageLockJSON c d \<longrightarrow>
      map_sum id mset (scanPackageLockJSONOptimized L path (Bytes (Decoded c)) vpm) =
      map_sum id mset (scanPackageLockJSONOptimized L path (Bytes (Decoded d)) vpm))
   \<and> (samePnpmLock e f \<longrightarrow>
      map_sum id mset (scanPnpmLockOptimized L path (Bytes (Decoded e)) vpm) =
      map_sum id mset (scanPnpmLockOptimized L path (Bytes (Decoded f)) vpm))"
  by (simp add: scanPackageJSONOptimized_same scanPackageLockJSONOptimized_same
      scanPnpmLockOptimized_same)

text \<open>
  The claim C8 as worded fails: a \<open>package.json\<close> whose dependencies name two
  vulnerable packages gives the two findings in the order in which the map is visited,
  and two runs may visit the same map in different orders.
\<close>

theorem scanners_same_order_counterexample:
  "samePackageJSON
     \<lparr>PackageJSON_Dependencies = Some [(''@ctrl/tinycolor'', ''4.1.1''), (''lodash'', ''4.17.20'')],
      PackageJSON_DevDependencies = None, PackageJSON_PeerDependencies = None,
      PackageJSON_OptionalDependencies = None, PackageJSON_BundledDependencies = []\<rparr>
     \<lparr>PackageJSON_Dependencies = Some [(''lodash'', ''4.17.20''), (''@ctrl/tinycolor'', ''4.1.1'')],
      PackageJSON_DevDependencies = None, PackageJSON_PeerDependencies = None,
      PackageJSON_OptionalDependencies = None, PackageJSON_BundledDependencies = []\<rparr>
   \<and> scanPackageJSONOptimized masterminds ''package.json''
       (Bytes (Decoded
         \<lparr>PackageJSON_Dependencies =
            Some [(''@ctrl/tinycolor'', ''4.1.1''), (''lodash'', ''4.17.20'')],
          PackageJSON_DevDependencies = None, PackageJSON_PeerDependencies = None,
          PackageJSON_OptionalDependencies = None, PackageJSON_BundledDependencies = []\<rparr>))
       (buildVulnerablePackageMap
          [\<lparr>Name = ''@ctrl/tinycolor'', Versions = [''4.1.1'']\<rparr>,
           \<lparr>Name = ''lodash'', Versions = [''4.17.20'']\<rparr>])
     = Inr [''Found vulnerable package @ctrl/tinycolor with version 4.1.1 in package.json (dependencies)'',
            ''Found vulnerable package lodash with version 4.17.20 in package.json (dependencies)'']
   \<and> scanPackageJSONOptimized masterminds ''package.json''
       (Bytes (Decoded
         \<lparr>PackageJSON_Dependencies =
            Some [(''lodash'', ''4.17.20''), (''@ctrl/tinycolor'', ''4.1.1'')],
          PackageJSON_DevDependencies = None, PackageJSON_PeerDependencies = None,
          PackageJSON_OptionalDependencies = None, PackageJSON_BundledDependencies = []\<rparr>))
       (buildVulnerablePackageMap
          [\<lparr>Name = ''@ctrl/tinycolor'', Versions = [''4.1.1'']\<rparr>,
           \<lparr>Name = ''lodash'', Versions = [''4.17.20'']\<rparr>])
     = Inr [''Found vulnerable package lodash with version 4.17.20 in package.json (dependencies)'',
            ''Found vulnerable package @ctrl/tinycolor with version 4.1.1 in package.json (dependencies)'']"
proof (intro conjI)
  show "samePackageJSON
     \<lparr>PackageJSON_Dependencies = Some [(''@ctrl/tinycolor'', ''4.1.1''), (''lodash'', ''4.17.20'')],
      PackageJSON_DevDependencies = None, PackageJSON_PeerDependencies = None,
      PackageJSON_OptionalDependencies = None, PackageJSON_BundledDependencies = []\<rparr>
     \<lparr>PackageJSON_Dependencies = Some [(''lodash'', ''4.17.20''), (''@ctrl/tinycolor'', ''4.1.1'')],
      PackageJSON_DevDependencies = None, PackageJSON_PeerDependencies = None,
      PackageJSON_OptionalDependencies = None, PackageJSON_BundledDependencies = []\<rparr>"
    by (simp add: samePackageJSON_def sameMap_def add_mset_commute)
qed code_simp+

lemma sameTree_leaf: "sameTree (PackageLockInfo v []) (PackageLockInfo v [])"
  using sameTreeI [of "[]" "[]" "[]" v] by simp

theorem scanners_same_findings_up_to_order_witness:
  "samePackageJSON
     \<lparr>PackageJSON_Dependencies = Some [(''@ctrl/tinycolor'', ''4.1.1''), (''lodash'', ''4.17.20'')],
      PackageJSON_DevDependencies = None, PackageJSON_PeerDependencies = None,
      PackageJSON_OptionalDependencies = None, PackageJSON_BundledDependencies = []\<rparr>
     \<lparr>PackageJSON_Dependencies = Some [(''lodash'', ''4.17.20''), (''@ctrl/tinycolor'', ''4.1.1'')],
      PackageJSON_DevDependencies = None, PackageJSON_PeerDependencies = None,
      PackageJSON_OptionalDependencies = None, PackageJSON_BundledDependencies = []\<rparr>
   \<and> map_sum id mset (scanPackageJSONOptimized masterminds ''package.json''
       (Bytes (Decoded
         \<lparr>PackageJSON_Dependencies =
            Some [(''@ctrl/tinycolor'', ''4.1.1''), (''lodash'', ''4.17.20'')],
          PackageJSON_DevDependencies = None, PackageJSON_PeerDependencies = None,
          PackageJSON_OptionalDependencies = None, PackageJSON_BundledDependencies = []\<rparr>))
       (buildVulnerablePackageMap
          [\<lparr>Name = ''@ctrl/tinycolor'', Versions = [''4.1.1'']\<rparr>,
           \<lparr>Name = ''lodash'', Versions = [''4.17.20'']\<rparr>]))
     = map_sum id mset (scanPackageJSONOptimized masterminds ''package.json''
       (Bytes (Decoded
         \<lparr>PackageJSON_Dependencies =
            Some [(''lodash'', ''4.17.20''), (''@ctrl/tinycolor'', ''4.1.1'')],
          PackageJSON_DevDependencies = None, PackageJSON_PeerDependencies = None,
          PackageJSON_OptionalDependencies = None, PackageJSON_BundledDependencies = []\<rparr>))
       (buildVulnerablePackageMap
          [\<lparr>Name = ''@ctrl/tinycolor'', Versions = [''4.1.1'']\<rparr>,
           \<lparr>Name = ''lodash'', Versions = [''4.17.20'']\<rparr>]))
   \<and> samePackageLockJSON
       \<lparr>PackageLockJSON_LockfileVersion = 1, PackageLockJSON_Packages = [],
        PackageLockJSON_Dependencies =
          [(''a'', PackageLockInfo ''1.0.0''
                    [(''lodash'', PackageLockInfo ''4.17.20'' []),
                     (''@ctrl/tinycolor'', PackageLockInfo ''4.1.1'' [])]),
           (''lodash'', PackageLockInfo ''4.17.20'' [])]\<rparr>
       \<lparr>PackageLockJSON_LockfileVersion = 1, PackageLockJSON_Packages = [],
        PackageLockJSON_Dependencies =
          [(''lodash'', PackageLockInfo ''4.17.20'' []),
           (''a'', PackageLockInfo ''1.0.0''
                    [(''@ctrl/tinycolor'', PackageLockInfo ''4.1.1'' []),
                     (''lodash'', PackageLockInfo ''4.17.20'' [])])]\<rparr>
   \<and> map_sum id mset (scanPackageLockJSONOptimized masterminds ''package-lock.json''
       (Bytes (Decoded
         \<lparr>PackageLockJSON_LockfileVersion = 1, PackageLockJSON_Packages = [],
          PackageLockJSON_Dependencies =
            [(''a'', PackageLockInfo ''1.0.0''
                      [(''lodash'', PackageLockInfo ''4.17.20'' []),
                       (''@ctrl/tinycolor'', PackageLockInfo ''4.1.1'' [])]),
             (''lodash'', PackageLockInfo ''4.17.20'' [])]\<rparr>))
       (buildVulnerablePackageMap
          [\<lparr>Name = ''@ctrl/tinycolor'', Versions = [''4.1.1'']\<rparr>,
           \<lparr>Name = ''lodash'', Versions = [''4.17.20'']\<rparr>]))
     = map_sum id mset (scanPackageLockJSONOptimized masterminds ''package-lock.json''
       (Bytes (Decoded
         \<lparr>PackageLockJSON_LockfileVersion = 1, PackageLockJSON_Packages = [],
          PackageLockJSON_Dependencies =
            [(''lodash'', PackageLockInfo ''4.17.20'' []),
             (''a'', PackageLockInfo ''1.0.0''
                      [(''@ctrl/tinycolor'', PackageLockInfo ''4.1.1'' []),
                       (''lodash'', PackageLockInfo ''4.17.20'' [])])]\<rparr>))
       (buildVulnerablePackageMap
          [\<lparr>Name = ''@ctrl/tinycolor'', Versions = [''4.1.1'']\<rparr>,
           \<lparr>Name = ''lodash'', Versions = [''4.17.20'']\<rparr>]))
   \<and> samePnpmLock
       (\<lparr>PnpmLock_LockfileVersion = 5, PnpmLock_Dependencies = None,
         PnpmLock_DevDependencies = Some [(''lodash'', ''4.17.20''), (''left-pad'', ''1.3.0'')],
         PnpmLock_Packages = [], PnpmLock_Specifiers = []\<rparr> :: unit PnpmLock)
       \<lparr>PnpmLock_LockfileVersion = 5, PnpmLock_Dependencies = None,
         PnpmLock_DevDependencies = Some [(''left-pad'', ''1.3.0''), (''lodash'', ''4.17.20'')],
         PnpmLock_Packages = [], PnpmLock_Specifiers = []\<rparr>
   \<and> map_sum id mset (scanPnpmLockOptimized masterminds ''pnpm-lock.yaml''
       (Bytes (Decoded
         (\<lparr>PnpmLock_LockfileVersion = 5, PnpmLock_Dependencies = None,
           PnpmLock_DevDependencies = Some [(''lodash'', ''4.17.20''), (''left-pad'', ''1.3.0'')],
           PnpmLock_Packages = [], PnpmLock_Specifiers = []\<rparr> :: unit PnpmLock)))
       (buildVulnerablePackageMap
          [\<lparr>Name = ''@ctrl/tinycolor'', Versions = [''4.1.1'']\<rparr>,
           \<lparr>Name = ''lodash'', Versions = [''4.17.20'']\<rparr>]))
     = map_sum id mset (scanPnpmLockOptimized masterminds ''pnpm-lock.yaml''
       (Bytes (Decoded
         (\<lparr>PnpmLock_LockfileVersion = 5, PnpmLock_Dependencies = None,
           PnpmLock_DevDependencies = Some [(''left-pad'', ''1.3.0''), (''lodash'', ''4.17.20'')],
           PnpmLock_Packages = [], PnpmLock_Specifiers = []\<rparr> :: unit PnpmLock)))
       (buildVulnerablePackageMap
          [\<lparr>Name = ''@ctrl/tinycolor'', Versions = [''4.1.1'']\<rparr>,
           \<lparr>Name = ''lodash'', Versions = [''4.17.20'']\<rparr>]))"
proof -
  define vpm where "vpm = buildVulnerablePackageMap
          [\<lparr>Name = ''@ctrl/tinycolor'', Versions = [''4.1.1'']\<rparr>,
           \<lparr>Name = ''lodash'', Versions = [''4.17.20'']\<rparr>]"
  define a where "a = \<lparr>PackageJSON_Dependencies =
        Some [(''@ctrl/tinycolor'', ''4.1.1''), (''lodash'', ''4.17.20'')],
      PackageJSON_DevDependencies = None, PackageJSON_PeerDependencies = None,
      PackageJSON_OptionalDependencies = None, PackageJSON_BundledDependencies = []\<rparr>"
  define b where "b = \<lparr>PackageJSON_Dependencies =
        Some [(''lodash'', ''4.17.20''), (''@ctrl/tinycolor'', ''4.1.1'')],
      PackageJSON_DevDependencies = None, PackageJSON_PeerDependencies = None,
      PackageJSON_OptionalDependencies = None, PackageJSON_BundledDependencies = []\<rparr>"
  define x where "x = (''lodash'', PackageLockInfo ''4.17.20'' [])"
  define y where "y = (''@ctrl/tinycolor'', PackageLockInfo ''4.1.1'' [])"
  define c where "c = \<lparr>PackageLockJSON_LockfileVersion = 1, PackageLockJSON_Packages = [],
        PackageLockJSON_Dependencies = [(''a'', PackageLockInfo ''1.0.0'' [x, y]), x]\<rparr>"
  define d where "d = \<lparr>PackageLockJSON_LockfileVersion = 1, PackageLockJSON_Packages = [],
        PackageLockJSON_Dependencies = [x, (''a'', PackageLockInfo ''1.0.0'' [y, x])]\<rparr>"
  define e :: "unit PnpmLock" where "e = \<lparr>PnpmLock_LockfileVersion = 5,
         PnpmLock_Dependencies = None,
         PnpmLock_DevDependencies = Some [(''lodash'', ''4.17.20''), (''left-pad'', ''1.3.0'')],
         PnpmLock_Packages = [], PnpmLock_Specifiers = []\<rparr>"
  define f :: "unit PnpmLock" where "f = \<lparr>PnpmLock_LockfileVersion = 5,
         PnpmLock_Dependencies = None,
         PnpmLock_DevDependencies = Some [(''left-pad'', ''1.3.0''), (''lodash'', ''4.17.20'')],
         PnpmLock_Packages = [], PnpmLock_Specifiers = []\<rparr>"
  have ab: "samePackageJSON a b"
    by (simp add: a_def b_def samePackageJSON_def sameMap_def add_mset_commute)
  have inner: "sameTree (PackageLockInfo ''1.0.0'' [x, y]) (PackageLockInfo ''1.0.0'' [y, x])"
    using sameTreeI [of "[x, y]" "[x, y]" "[y, x]" "''1.0.0''"]
    by (simp add: x_def y_def sameTree_leaf add_mset_commute)
  have "sameTree (PackageLockInfo [] [(''a'', PackageLockInfo ''1.0.0'' [x, y]), x])
      (PackageLockInfo [] [x, (''a'', PackageLockInfo ''1.0.0'' [y, x])])"
    using sameTreeI [of "[(''a'', PackageLockInfo ''1.0.0'' [x, y]), x]"
        "[(''a'', PackageLockInfo ''1.0.0'' [y, x]), x]"
        "[x, (''a'', PackageLockInfo ''1.0.0'' [y, x])]" "[]"] inner
    by (simp add: x_def sameTree_leaf add_mset_commute)
  then have cd: "samePackageLockJSON c d"
    by (simp add: c_def d_def samePackageLockJSON_def sameMap_def)
  have ef: "samePnpmLock e f"
    by (simp add: e_def f_def samePnpmLock_def sameMap_def add_mset_commute)
  from scanners_same_findings_up_to_order
    [of a b masterminds "''package.json''" vpm c d e f] ab
  have 1: "map_sum id mset (scanPackageJSONOptimized masterminds ''package.json''
        (Bytes (Decoded a)) vpm)
      = map_sum id mset (scanPackageJSONOptimized masterminds ''package.json''
        (Bytes (Decoded b)) vpm)"
    by blast
  from scanners_same_findings_up_to_order
    [of a b masterminds "''package-lock.json''" vpm c d e f] cd
  have 2: "map_sum id mset (scanPackageLockJSONOptimized masterminds ''package-lock.json''
        (Bytes (Decoded c)) vpm)
      = map_sum id mset (scanPackageLockJSONOptimized masterminds ''package-lock.json''
        (Bytes (Decoded d)) vpm)"
    by blast
  from scanners_same_findings_up_to_order
    [of a b masterminds "''pnpm-lock.yaml''" vpm c d e f] ef
  have 3: "map_sum id mset (scanPnpmLockOptimized masterminds ''pnpm-lock.yaml''
        (Bytes (Decoded e)) vpm)
      = map_sum id mset (scanPnpmLockOptimized masterminds ''pnpm-lock.yaml''
        (Bytes (Decoded f)) vpm)"
    by blast
  from ab cd ef 1 2 3 show ?thesis
    unfolding a_def b_def c_def d_def e_def f_def vpm_def x_def y_def
    by - (intro conjI; assumption)
qed

end
